theory Spec2Isabelle
  imports Complex_Main "HOL-Library.AList" "HOL-Library.Sublist"
begin

section \<open>Text\<close>

text \<open>
  Python strings are modelled as 8-bit character lists. ASCII text is modelled exactly.
  Case mapping, whitespace and word-character tests follow Python on ASCII characters;
  a character above 127 has no case, is no whitespace and no word character. The
  pictographs of the message literals of \<^verbatim>\<open>app.py\<close> appear as their UTF-8 bytes.
\<close>

definition ascii_uppercase :: string where
  "ascii_uppercase = ''ABCDEFGHIJKLMNOPQRSTUVWXYZ''"

definition ascii_lowercase :: string where
  "ascii_lowercase = ''abcdefghijklmnopqrstuvwxyz''"

definition is_upper :: "char \<Rightarrow> bool" where
  "is_upper c = (c \<in> set ascii_uppercase)"

definition is_lower :: "char \<Rightarrow> bool" where
  "is_lower c = (c \<in> set ascii_lowercase)"

definition is_digit :: "char \<Rightarrow> bool" where
  "is_digit c = (c \<in> set ''0123456789'')"

text \<open>\<^verbatim>\<open>str.isspace\<close> on one ASCII character: tab, line feed, vertical tab, form feed,
  carriage return, the four separators 0x1C..0x1F and the space.\<close>

definition is_space :: "char \<Rightarrow> bool" where
  "is_space c = (c \<in> set [CHR 0x09, CHR 0x0A, CHR 0x0B, CHR 0x0C, CHR 0x0D,
                            CHR 0x1C, CHR 0x1D, CHR 0x1E, CHR 0x1F, CHR 0x20])"

definition lower_char :: "char \<Rightarrow> char" where
  "lower_char c = (case map_of (zip ascii_uppercase ascii_lowercase) c of
                     Some d \<Rightarrow> d | None \<Rightarrow> c)"

definition upper_char :: "char \<Rightarrow> char" where
  "upper_char c = (case map_of (zip ascii_lowercase ascii_uppercase) c of
                     Some d \<Rightarrow> d | None \<Rightarrow> c)"

text \<open>\<^verbatim>\<open>s.lower()\<close>\<close>

definition str_lower :: "string \<Rightarrow> string" where
  "str_lower s = map lower_char s"

fun starts_with :: "string \<Rightarrow> string \<Rightarrow> bool" where
  "starts_with [] s = True"
| "starts_with (p # ps) [] = False"
| "starts_with (p # ps) (c # cs) = (p = c \<and> starts_with ps cs)"

text \<open>\<^verbatim>\<open>sub in s\<close>\<close>

fun str_in :: "string \<Rightarrow> string \<Rightarrow> bool" where
  "str_in sub [] = (sub = [])"
| "str_in sub (c # cs) = (starts_with sub (c # cs) \<or> str_in sub cs)"

text \<open>\<^verbatim>\<open>any(k in s for k in ks)\<close>\<close>

primrec any_in :: "string list \<Rightarrow> string \<Rightarrow> bool" where
  "any_in [] s = False"
| "any_in (k # ks) s = (str_in k s \<or> any_in ks s)"

text \<open>\<^verbatim>\<open>s.strip()\<close> and \<^verbatim>\<open>s.strip(chars)\<close>\<close>

definition strip_by :: "(char \<Rightarrow> bool) \<Rightarrow> string \<Rightarrow> string" where
  "strip_by p s = rev (dropWhile p (rev (dropWhile p s)))"

definition str_strip :: "string \<Rightarrow> string" where
  "str_strip s = strip_by is_space s"

definition strip_chars :: "string \<Rightarrow> string \<Rightarrow> string" where
  "strip_chars chars s = strip_by (\<lambda>c. c \<in> set chars) s"

text \<open>\<^verbatim>\<open>sep.join(xs)\<close>\<close>

fun str_join :: "string \<Rightarrow> string list \<Rightarrow> string" where
  "str_join sep [] = []"
| "str_join sep [x] = x"
| "str_join sep (x # y # ys) = x @ sep @ str_join sep (y # ys)"

text \<open>\<^verbatim>\<open>s.replace(a, b)\<close> for one-character \<^verbatim>\<open>a\<close> and \<^verbatim>\<open>b\<close>\<close>

definition replace_char :: "char \<Rightarrow> char \<Rightarrow> string \<Rightarrow> string" where
  "replace_char a b s = map (\<lambda>c. if c = a then b else c) s"

text \<open>\<^verbatim>\<open>s.title()\<close>: a cased character is put in upper case after an uncased one
  (or at the start) and in lower case after a cased one.\<close>

fun title_from :: "bool \<Rightarrow> string \<Rightarrow> string" where
  "title_from prev_cased [] = []"
| "title_from prev_cased (c # cs) =
     (if is_upper c \<or> is_lower c
      then (if prev_cased then lower_char c else upper_char c) # title_from True cs
      else c # title_from False cs)"

definition str_title :: "string \<Rightarrow> string" where
  "str_title s = title_from False s"

text \<open>\<^verbatim>\<open>s.istitle()\<close>: upper-case characters only after uncased ones, lower-case
  characters only after cased ones, and at least one cased character.\<close>

fun istitle_from :: "bool \<Rightarrow> bool \<Rightarrow> string \<Rightarrow> bool" where
  "istitle_from prev_cased seen [] = seen"
| "istitle_from prev_cased seen (c # cs) =
     (if is_upper c then (\<not> prev_cased \<and> istitle_from True True cs)
      else if is_lower c then (prev_cased \<and> istitle_from True True cs)
      else istitle_from False seen cs)"

definition str_istitle :: "string \<Rightarrow> bool" where
  "str_istitle s = istitle_from False False s"

text \<open>\<^verbatim>\<open>s.split(c)\<close> for a one-character separator: the pieces between the
  occurrences, empty pieces kept.\<close>

fun split_char :: "char \<Rightarrow> string \<Rightarrow> string \<Rightarrow> string list" where
  "split_char sep cur [] = [cur]"
| "split_char sep cur (c # cs) =
     (if c = sep then cur # split_char sep [] cs else split_char sep (cur @ [c]) cs)"

text \<open>\<^verbatim>\<open>s.split()\<close>: the maximal runs of characters that are no whitespace.\<close>

fun split_ws :: "string \<Rightarrow> string \<Rightarrow> string list" where
  "split_ws cur [] = (if cur = [] then [] else [cur])"
| "split_ws cur (c # cs) =
     (if is_space c then (if cur = [] then split_ws [] cs else cur # split_ws [] cs)
      else split_ws (cur @ [c]) cs)"

definition str_split :: "string \<Rightarrow> string list" where
  "str_split s = split_ws [] s"

text \<open>\<^verbatim>\<open>str(n)\<close> for an integer.\<close>

definition digit_char :: "nat \<Rightarrow> char" where
  "digit_char d = ''0123456789'' ! d"

fun str_nat :: "nat \<Rightarrow> string" where
  "str_nat n = (if n < 10 then [digit_char n] else str_nat (n div 10) @ [digit_char (n mod 10)])"

definition str_int :: "int \<Rightarrow> string" where
  "str_int i = (if i < 0 then CHR ''-'' # str_nat (nat (- i)) else str_nat (nat i))"

declare str_nat.simps [simp del]

section \<open>Values, dictionaries and exceptions\<close>

text \<open>
  A raised exception is the left summand of a sum, carrying \<^verbatim>\<open>str(e)\<close>.
\<close>

type_synonym 'a raising = "string + 'a"

text \<open>
  The values a preferences dictionary holds: \<^verbatim>\<open>None\<close>, an integer, a float, a string, a
  list of strings and a dictionary from strings to booleans. A float is only stored,
  returned and printed, never computed with; it is a real number here and the \<^verbatim>\<open>nan\<close>
  of Python is no value of the model. A dictionary is an association list in insertion
  order.
\<close>

datatype pyval =
    PNone
  | PInt int
  | PFloat real
  | PStr string
  | PStrs "string list"
  | PGoals "(string \<times> bool) list"

type_synonym pydict = "(string \<times> pyval) list"

text \<open>\<^verbatim>\<open>bool(v)\<close>\<close>

fun truthy :: "pyval \<Rightarrow> bool" where
  "truthy PNone = False"
| "truthy (PInt i) = (i \<noteq> 0)"
| "truthy (PFloat r) = (r \<noteq> 0)"
| "truthy (PStr s) = (s \<noteq> [])"
| "truthy (PStrs xs) = (xs \<noteq> [])"
| "truthy (PGoals g) = (g \<noteq> [])"

text \<open>\<^verbatim>\<open>d.get(k)\<close>\<close>

definition dict_get :: "pydict \<Rightarrow> string \<Rightarrow> pyval" where
  "dict_get d k = (case map_of d k of None \<Rightarrow> PNone | Some v \<Rightarrow> v)"

text \<open>\<^verbatim>\<open>for x in v\<close>: the elements of a list, the characters of a string, the keys of a
  dictionary; a number is not iterable.\<close>

fun py_iter :: "pyval \<Rightarrow> string list raising" where
  "py_iter (PStrs xs) = Inr xs"
| "py_iter (PStr s) = Inr (map (\<lambda>c. [c]) s)"
| "py_iter (PGoals g) = Inr (map fst g)"
| "py_iter (PInt i) = Inl ''int object is not iterable''"
| "py_iter (PFloat r) = Inl ''float object is not iterable''"
| "py_iter PNone = Inl ''NoneType object is not iterable''"

text \<open>\<^verbatim>\<open>v.get(k)\<close> and \<^verbatim>\<open>v.items()\<close>, which only a dictionary has.\<close>

fun py_items :: "pyval \<Rightarrow> (string \<times> bool) list raising" where
  "py_items (PGoals g) = Inr g"
| "py_items (PStrs xs) = Inl ''list object has no attribute''"
| "py_items (PStr s) = Inl ''str object has no attribute''"
| "py_items (PInt i) = Inl ''int object has no attribute''"
| "py_items (PFloat r) = Inl ''float object has no attribute''"
| "py_items PNone = Inl ''NoneType object has no attribute''"

definition goal_set :: "(string \<times> bool) list \<Rightarrow> string \<Rightarrow> bool" where
  "goal_set g k = (case map_of g k of None \<Rightarrow> False | Some b \<Rightarrow> b)"

section \<open>Configuration and the outside world\<close>

text \<open>
  Of \<^verbatim>\<open>Config\<close> the methods below read the two credentials only.
\<close>

record config =
  mistral_api_key :: string
  exa_api_key :: string

text \<open>
  A request to the chat-completion endpoint is one of five fixed prompt templates; the
  request is recorded by its template and the strings interpolated into it.
\<close>

datatype mistral_task =
    QueryGeneration string
  | NutritionAdvice string string
  | WorkoutPlan string string
  | RestaurantRecommendations string string nat string
  | FoodExtraction string

datatype http_call =
    MistralPost string mistral_task
  | ExaPost string string

text \<open>
  What \<^verbatim>\<open>requests.post\<close> gives back: it raises, or there is a response with a status
  code. Of a chat response the code reads the text at
  \<^verbatim>\<open>response.json()['choices'][0]['message']['content']\<close> (reading it may raise),
  \<^verbatim>\<open>response.text\<close>, and for an error body the message under its \<^verbatim>\<open>error\<close> key.
\<close>

datatype error_body =
    ErrorMessage string
  | NoErrorKey
  | Unreadable

datatype mistral_reply =
    MistralRaises string
  | MistralResponse nat "string raising" string error_body

text \<open>
  A search result is a dictionary of which the code reads \<^verbatim>\<open>url\<close>, \<^verbatim>\<open>title\<close> and
  \<^verbatim>\<open>text\<close>; \<^const>\<open>None\<close> is a missing key.
\<close>

record search_result =
  result_url :: "string option"
  result_title :: "string option"
  result_text :: "string option"

text \<open>Of a search response the code reads \<^verbatim>\<open>response.json().get("results", [])\<close>
  (reading it may raise) and \<^verbatim>\<open>response.text\<close>.\<close>

datatype exa_reply =
    ExaRaises string
  | ExaResponse nat "search_result list raising" string

text \<open>
  What \<^verbatim>\<open>json.loads\<close> makes of the answer to a food extraction request:
  \<^verbatim>\<open>JSONDecodeError\<close>, a value without \<^verbatim>\<open>get\<close> (the message is that of the
  \<^verbatim>\<open>AttributeError\<close>), or a dictionary, given by what the code reads of it:
  \<^verbatim>\<open>get('food_item', 'Unknown food')\<close> and \<^verbatim>\<open>get('calories', 0)\<close>.
\<close>

datatype food_reading =
    NotJson
  | NotADict string
  | FoodData pyval pyval

text \<open>
  The world answers a request given the calls issued before it, reads the JSON of a
  food extraction answer, and prints floats, lists and dictionaries as Python does.
\<close>

record world =
  mistral_api :: "http_call list \<Rightarrow> string \<Rightarrow> mistral_task \<Rightarrow> mistral_reply"
  exa_api :: "http_call list \<Rightarrow> string \<Rightarrow> string \<Rightarrow> exa_reply"
  json_food :: "string \<Rightarrow> food_reading"
  py_repr :: "pyval \<Rightarrow> string"

section \<open>Message literals\<close>

text \<open>The pictographs of the messages, as UTF-8 bytes, and the line feed.\<close>

definition nl :: string where
  "nl = [CHR 0x0A]"

definition check_mark :: string where
  "check_mark = [CHR 0xE2, CHR 0x9C, CHR 0x85]"

definition cross_mark :: string where
  "cross_mark = [CHR 0xE2, CHR 0x9D, CHR 0x8C]"

definition warning_sign :: string where
  "warning_sign = [CHR 0xE2, CHR 0x9A, CHR 0xA0, CHR 0xEF, CHR 0xB8, CHR 0x8F]"

definition key_sign :: string where
  "key_sign = [CHR 0xF0, CHR 0x9F, CHR 0x94, CHR 0x91]"

definition magnifier :: string where
  "magnifier = [CHR 0xF0, CHR 0x9F, CHR 0x94, CHR 0x8D]"

definition plate_sign :: string where
  "plate_sign = [CHR 0xF0, CHR 0x9F, CHR 0x8D, CHR 0xBD, CHR 0xEF, CHR 0xB8, CHR 0x8F]"

definition bullet :: string where
  "bullet = [CHR 0xE2, CHR 0x80, CHR 0xA2]"

definition thinking_face :: string where
  "thinking_face = [CHR 0xF0, CHR 0x9F, CHR 0xA4, CHR 0x94]"

definition map_sign :: string where
  "map_sign = [CHR 0xF0, CHR 0x9F, CHR 0x97, CHR 0xBA, CHR 0xEF, CHR 0xB8, CHR 0x8F]"

definition plane_sign :: string where
  "plane_sign = [CHR 0xE2, CHR 0x9C, CHR 0x88, CHR 0xEF, CHR 0xB8, CHR 0x8F]"

definition people_sign :: string where
  "people_sign = [CHR 0xF0, CHR 0x9F, CHR 0x91, CHR 0xA5]"

definition link_sign :: string where
  "link_sign = [CHR 0xF0, CHR 0x9F, CHR 0x94, CHR 0x97]"

definition chart_sign :: string where
  "chart_sign = [CHR 0xF0, CHR 0x9F, CHR 0x93, CHR 0x8A]"

definition bulb_sign :: string where
  "bulb_sign = [CHR 0xF0, CHR 0x9F, CHR 0x92, CHR 0xA1]"

definition target_sign :: string where
  "target_sign = [CHR 0xF0, CHR 0x9F, CHR 0x8E, CHR 0xAF]"

text \<open>Line 867 of \<^verbatim>\<open>app.py\<close>.\<close>

definition msg_invalid_input :: "string" where
  "msg_invalid_input =
     ''Invalid input. Please provide a valid nutrition question.''"

text \<open>Line 156 of \<^verbatim>\<open>app.py\<close>.\<close>

definition msg_save_ok :: "string" where
  "msg_save_ok =
     check_mark @ '' Preferences saved successfully!''"

text \<open>Line 159 of \<^verbatim>\<open>app.py\<close>.\<close>

definition msg_save_error :: "string \<Rightarrow> string" where
  "msg_save_error e =
     cross_mark @ '' Error saving preferences: '' @ e"

text \<open>Line 342 of \<^verbatim>\<open>app.py\<close>.\<close>

definition msg_mistral_key_missing :: "string" where
  "msg_mistral_key_missing =
     cross_mark @ '' Mistral API key not configured. Please set MISTRAL_API_KEY in your '' @
       ''environment variables.''"

text \<open>Line 438 of \<^verbatim>\<open>app.py\<close>.\<close>

definition msg_auth_error :: "string" where
  "msg_auth_error =
     cross_mark @
       '' Authentication Error (401): Invalid Mistral API key. Please check your '' @
       ''API key configuration.''"

text \<open>Line 440 of \<^verbatim>\<open>app.py\<close>.\<close>

definition msg_api_error :: "string \<Rightarrow> string \<Rightarrow> string" where
  "msg_api_error status error_msg =
     cross_mark @ '' API Error ('' @ status @ ''): '' @ error_msg"

text \<open>Line 444 of \<^verbatim>\<open>app.py\<close>.\<close>

definition msg_advice_error :: "string \<Rightarrow> string" where
  "msg_advice_error e =
     cross_mark @ '' Error: '' @ e"

text \<open>Line 449 of \<^verbatim>\<open>app.py\<close>.\<close>

definition msg_workout_key_required :: "string" where
  "msg_workout_key_required =
     key_sign @ '' MISTRAL_API_KEY required for personalized workout plans. Please '' @
       ''configure your API key.''"

text \<open>Line 528 of \<^verbatim>\<open>app.py\<close>.\<close>

definition msg_workout_failed :: "string \<Rightarrow> string \<Rightarrow> string" where
  "msg_workout_failed status body =
     ''Mistral Agents API failed with status '' @ status @ '': '' @ body"

text \<open>Line 539 of \<^verbatim>\<open>app.py\<close>.\<close>

definition msg_exa_key_missing :: "string" where
  "msg_exa_key_missing =
     key_sign @ '' EXA_API_KEY not configured. Please set your Exa API key in environment '' @
       ''variables to enable restaurant search.''"

text \<open>Line 623 of \<^verbatim>\<open>app.py\<close>.\<close>

definition msg_debug_empty :: "string \<Rightarrow> string \<Rightarrow> string" where
  "msg_debug_empty tried successful =
     ''Tried '' @ tried @ '' search queries, '' @ successful @
       '' successful API calls, but got 0 unique results''"

text \<open>Line 629 of \<^verbatim>\<open>app.py\<close>.\<close>

definition msg_debug_found :: "string \<Rightarrow> string \<Rightarrow> string" where
  "msg_debug_found found successful =
     ''Successfully found '' @ found @ '' restaurants using '' @ successful @
       '' successful queries''"

text \<open>Line 634 of \<^verbatim>\<open>app.py\<close>.\<close>

definition msg_search_failed :: "string \<Rightarrow> string" where
  "msg_search_failed e =
     ''Search failed: '' @ e @ ''. Please check your EXA_API_KEY configuration.''"

text \<open>Line 643 of \<^verbatim>\<open>app.py\<close>.\<close>

definition msg_search_unavailable :: "string \<Rightarrow> string \<Rightarrow> string" where
  "msg_search_unavailable error_msg location =
     key_sign @ '' **Restaurant Search Not Available**'' @ nl @ nl @ error_msg @ nl @ nl @
       ''**To enable real-time restaurant search:**'' @ nl @
       ''1. Get an API key from https://exa.ai'' @ nl @
       ''2. Add `EXA_API_KEY=your_key_here` to your .env file'' @ nl @
       ''3. Restart the application'' @ nl @ nl @ ''**Meanwhile, here are dining tips for '' @
       location @ '':**'' @ nl @ bullet @
       '' Check Zomato, Google Maps, or TripAdvisor for reviews'' @ nl @ bullet @
       '' Look for restaurants with healthy menu options'' @ nl @ bullet @
       '' Consider the cooking methods - grilled, baked, or steamed are better '' @ ''choices''"

text \<open>Line 645 of \<^verbatim>\<open>app.py\<close>.\<close>

definition msg_search_issue :: "string \<Rightarrow> string \<Rightarrow> string" where
  "msg_search_issue error_msg location =
     warning_sign @ '' **Search Issue:** '' @ error_msg @ nl @ nl @
       ''**General dining tips for '' @ location @ '':**'' @ nl @ bullet @
       '' Look for restaurants with good reviews on Google Maps or Zomato'' @ nl @ bullet @
       '' Check for healthy options like grilled proteins and fresh vegetables'' @ nl @
       bullet @ '' Consider the cooking methods - grilled, baked, or steamed are better '' @
       ''choices'' @ nl @ bullet @ '' Watch portion sizes and consider sharing dishes''"

text \<open>Line 652 of \<^verbatim>\<open>app.py\<close>.\<close>

definition msg_debug_suffix :: "string \<Rightarrow> string" where
  "msg_debug_suffix debug_info =
     nl @ nl @ magnifier @ '' **Debug Info:** '' @ debug_info"

text \<open>Line 653 of \<^verbatim>\<open>app.py\<close>.\<close>

definition msg_no_results :: "string \<Rightarrow> string \<Rightarrow> string" where
  "msg_no_results location debug_msg =
     thinking_face @ '' **No Restaurant Results Found**'' @ nl @ nl @
       ''I searched extensively but couldn't find specific restaurant '' @
       ''recommendations for **'' @ location @ ''** right now. This could be due to:'' @ nl @
       nl @ bullet @
       '' **Location specificity**: Try a broader area (e.g., 'Mumbai' instead '' @
       ''of 'Bandra West')'' @ nl @ bullet @
       '' **Search timing**: Restaurant databases might be updating'' @ nl @ bullet @
       '' **API limitations**: Some regions have limited coverage'' @ nl @ nl @
       ''**Meanwhile, here are proven ways to find great restaurants:**'' @ nl @ bullet @
       '' '' @ magnifier @
       '' **Zomato/Swiggy**: Best for Indian locations with reviews and ratings'' @ nl @
       bullet @ '' '' @ map_sign @
       '' **Google Maps**: Search 'restaurants near [location]' with photos and '' @
       ''reviews'' @ nl @ bullet @ '' '' @ plane_sign @
       '' **TripAdvisor**: Great for tourist areas and popular spots'' @ nl @ bullet @ '' '' @
       people_sign @ '' **Ask locals**: Social media groups or friends in the area'' @
       debug_msg"

text \<open>Line 660 of \<^verbatim>\<open>app.py\<close>.\<close>

definition msg_format_trouble :: "string \<Rightarrow> string" where
  "msg_format_trouble location =
     ''Found some restaurants for '' @ location @
       '', but had trouble formatting the results. Try searching on Zomato or '' @
       ''Google Maps for local recommendations!''"

text \<open>Line 667 of \<^verbatim>\<open>app.py\<close>.\<close>

definition msg_found_header :: "string \<Rightarrow> string \<Rightarrow> string" where
  "msg_found_header n location =
     plate_sign @ '' **Found '' @ n @ '' restaurant recommendations for '' @ location @
       '':**'' @ nl @ nl"

text \<open>Line 671 of \<^verbatim>\<open>app.py\<close>.\<close>

definition msg_found_item :: "string \<Rightarrow> string \<Rightarrow> string \<Rightarrow> string" where
  "msg_found_item i title url =
     i @ ''. **'' @ title @ ''**'' @ nl @ url @ nl @ nl"

text \<open>Line 773 of \<^verbatim>\<open>app.py\<close>.\<close>

definition msg_options_header :: "string \<Rightarrow> string \<Rightarrow> string" where
  "msg_options_header n location =
     plate_sign @ '' **Found '' @ n @ '' great restaurant options in '' @ location @ '':**'' @
       nl @ nl"

text \<open>Line 777 of \<^verbatim>\<open>app.py\<close>.\<close>

definition msg_option_title :: "string \<Rightarrow> string \<Rightarrow> string" where
  "msg_option_title i title =
     i @ ''. **'' @ title @ ''**'' @ nl"

text \<open>Line 779 of \<^verbatim>\<open>app.py\<close>.\<close>

definition msg_option_link :: "string \<Rightarrow> string" where
  "msg_option_link url =
     link_sign @ '' '' @ url @ nl"

text \<open>Line 786 of \<^verbatim>\<open>app.py\<close>.\<close>

definition msg_plain_header :: "string \<Rightarrow> string \<Rightarrow> string" where
  "msg_plain_header n location =
     plate_sign @ '' **Found '' @ n @ '' restaurants in '' @ location @ '':**'' @ nl @ nl"

text \<open>Line 789 of \<^verbatim>\<open>app.py\<close>.\<close>

definition msg_plain_item :: "string \<Rightarrow> string \<Rightarrow> string" where
  "msg_plain_item i title =
     i @ ''. '' @ title @ nl"

text \<open>Line 900 of \<^verbatim>\<open>app.py\<close>.\<close>

definition msg_query_error :: "string \<Rightarrow> string" where
  "msg_query_error e =
     warning_sign @ '' Sorry, I encountered an error processing your query: '' @ e"

text \<open>Line 922 of \<^verbatim>\<open>app.py\<close>.\<close>

definition msg_set_user_id :: "string" where
  "msg_set_user_id =
     cross_mark @ '' Please set your User ID first to log food. Go to '' @ [CHR 0x27] @
       target_sign @ '' Set Preferences' to set your User ID.''"

text \<open>Line 982 of \<^verbatim>\<open>app.py\<close>.\<close>

definition msg_logged_ok :: "string \<Rightarrow> string" where
  "msg_logged_ok log_result =
     check_mark @ '' '' @ log_result"

text \<open>Line 987 of \<^verbatim>\<open>app.py\<close>.\<close>

definition msg_progress :: "string \<Rightarrow> string \<Rightarrow> string" where
  "msg_progress calories target =
     nl @ chart_sign @ '' Progress: Added '' @ calories @ '' calories toward your '' @ target @
       '' calorie target.''"

text \<open>Line 991 of \<^verbatim>\<open>app.py\<close>.\<close>

definition msg_tip :: "string" where
  "msg_tip =
     nl @ bulb_sign @ '' Tip: Keep up the great work tracking your nutrition!''"

text \<open>Line 999 of \<^verbatim>\<open>app.py\<close>.\<close>

definition msg_not_understood :: "string" where
  "msg_not_understood =
     cross_mark @ '' I couldn't understand the food details. Please try: 'I ate [food '' @
       ''name]' or 'Had [food name]'' @ [CHR 0x27]"

text \<open>Line 1003 of \<^verbatim>\<open>app.py\<close>.\<close>

definition msg_not_processed :: "string" where
  "msg_not_processed =
     cross_mark @
       '' I couldn't process your food logging request. Please try: 'I ate [food '' @
       ''name]' or 'Had [food name]'' @ [CHR 0x27]"

text \<open>Line 1007 of \<^verbatim>\<open>app.py\<close>.\<close>

definition msg_logging_error :: "string \<Rightarrow> string" where
  "msg_logging_error e =
     cross_mark @ '' Error logging food: '' @ e"

text \<open>Line 1018 of \<^verbatim>\<open>app.py\<close>.\<close>

definition msg_logged :: "string \<Rightarrow> string \<Rightarrow> string" where
  "msg_logged food_item calories =
     ''Logged: '' @ food_item @ '' ('' @ calories @ '' calories)''"

text \<open>Line 1021 of \<^verbatim>\<open>app.py\<close>.\<close>

definition msg_log_failed :: "string \<Rightarrow> string" where
  "msg_log_failed e =
     ''Error logging food: '' @ e"

section \<open>Query composer\<close>

text \<open>The \<^verbatim>\<open>if/elif\<close> chain of \<^verbatim>\<open>_generate_fallback_queries\<close> over one restriction.\<close>

definition dietary_term :: "string \<Rightarrow> string option" where
  "dietary_term restriction =
     (let r = str_lower restriction in
      if str_in ''vegetarian'' r then Some ''vegetarian''
      else if str_in ''vegan'' r then Some ''vegan''
      else if str_in ''pescatarian'' r then Some ''pescatarian''
      else if str_in ''keto'' r then Some ''keto''
      else if str_in ''gluten'' r then Some ''gluten-free''
      else if str_in ''halal'' r then Some ''halal''
      else if str_in ''kosher'' r then Some ''kosher''
      else None)"

definition dietary_terms_of :: "pydict \<Rightarrow> string list raising" where
  "dietary_terms_of user_prefs =
     (if truthy (dict_get user_prefs ''dietary_restrictions'')
      then (case py_iter (dict_get user_prefs ''dietary_restrictions'') of
              Inl e \<Rightarrow> Inl e
            | Inr rs \<Rightarrow> Inr (List.map_filter dietary_term rs))
      else Inr [])"

definition health_terms_of :: "pydict \<Rightarrow> string list raising" where
  "health_terms_of user_prefs =
     (if truthy (dict_get user_prefs ''health_goals'')
      then (case py_items (dict_get user_prefs ''health_goals'') of
              Inl e \<Rightarrow> Inl e
            | Inr g \<Rightarrow> Inr ((if goal_set g ''weight_loss'' then [''healthy''] else []) @
                           (if goal_set g ''muscle_gain'' then [''protein-rich''] else [])))
      else Inr [])"

definition generate_fallback_queries :: "string \<Rightarrow> pydict \<Rightarrow> string \<Rightarrow> string list raising" where
  "generate_fallback_queries location user_prefs cuisine =
     (case dietary_terms_of user_prefs of
        Inl e \<Rightarrow> Inl e
      | Inr dietary_terms \<Rightarrow>
     (case health_terms_of user_prefs of
        Inl e \<Rightarrow> Inl e
      | Inr health_terms \<Rightarrow>
          let dietary_str = (if dietary_terms \<noteq> [] then str_join '' '' dietary_terms else []);
              cuisine_str = (if cuisine \<noteq> [] then cuisine else ''restaurants'');
              query1 = str_strip (''best '' @ dietary_str @ '' '' @ cuisine_str @ '' in '' @ location);
              health_str = (if health_terms \<noteq> [] then str_join '' '' health_terms else ''good'');
              query2 = str_strip (health_str @ '' restaurants '' @ location @ '' reviews'');
              platform_query = location @ '' restaurants'';
              platform_query = (if dietary_terms \<noteq> []
                                then platform_query @ '' '' @ hd dietary_terms
                                else platform_query);
              platform_query = platform_query @ '' zomato swiggy''
          in Inr [query1, query2, platform_query]))"

text \<open>The context string of \<^verbatim>\<open>_generate_smart_search_queries\<close>.\<close>

definition join_field :: "pyval \<Rightarrow> string raising" where
  "join_field v = (case py_iter v of Inl e \<Rightarrow> Inl e | Inr xs \<Rightarrow> Inr (str_join '', '' xs))"

definition active_goals :: "(string \<times> bool) list \<Rightarrow> string list" where
  "active_goals g = map (\<lambda>kv. replace_char CHR ''_'' CHR '' '' (fst kv)) (filter snd g)"

text \<open>One optional part of a context: nothing for a falsy value, else the label and
  the rendering, which may raise.\<close>

definition add_part ::
  "pyval \<Rightarrow> (pyval \<Rightarrow> string list raising) \<Rightarrow> string list \<Rightarrow> string list raising" where
  "add_part v render parts =
     (if truthy v
      then (case render v of Inl e \<Rightarrow> Inl e | Inr new \<Rightarrow> Inr (parts @ new))
      else Inr parts)"

definition labelled_join :: "string \<Rightarrow> pyval \<Rightarrow> string list raising" where
  "labelled_join label v = (case join_field v of Inl e \<Rightarrow> Inl e | Inr s \<Rightarrow> Inr [label @ s])"

definition labelled_goals ::
  "string \<Rightarrow> (string \<Rightarrow> string) \<Rightarrow> pyval \<Rightarrow> string list raising" where
  "labelled_goals label f v =
     (case py_items v of
        Inl e \<Rightarrow> Inl e
      | Inr g \<Rightarrow> Inr (if active_goals g \<noteq> []
                       then [label @ str_join '', '' (map f (active_goals g))]
                       else []))"

text \<open>Sequencing of steps that may raise.\<close>

definition and_then :: "'a raising \<Rightarrow> ('a \<Rightarrow> 'b raising) \<Rightarrow> 'b raising" where
  "and_then r f = (case r of Inl e \<Rightarrow> Inl e | Inr x \<Rightarrow> f x)"

definition query_context :: "string \<Rightarrow> pydict \<Rightarrow> string \<Rightarrow> string raising" where
  "query_context location user_prefs cuisine =
     (let parts = [''Location: '' @ location];
          parts = (if cuisine \<noteq> [] then parts @ [''Cuisine preference: '' @ cuisine] else parts)
      in
      and_then (add_part (dict_get user_prefs ''dietary_restrictions'')
                  (labelled_join ''Dietary restrictions: '') parts) (\<lambda>parts.
      and_then (add_part (dict_get user_prefs ''food_allergies'')
                  (labelled_join ''Food allergies: '') parts) (\<lambda>parts.
      and_then (add_part (dict_get user_prefs ''health_goals'')
                  (labelled_goals ''Health goals: '' (\<lambda>s. s)) parts) (\<lambda>parts.
      Inr (str_join ''. '' parts)))))"

text \<open>The lines of the model's answer:
  \<^verbatim>\<open>[q.strip() for q in content.split('\n') if q.strip()]\<close>.\<close>

definition answer_lines :: "string \<Rightarrow> string list" where
  "answer_lines content =
     map str_strip (filter (\<lambda>q. str_strip q \<noteq> []) (split_char CHR 0x0A [] content))"

text \<open>
  \<^verbatim>\<open>_generate_smart_search_queries\<close>. Everything between the credential test and the
  fallback is inside \<^verbatim>\<open>try\<close>: an exception there, a status other than 200 and an answer
  of fewer than three lines all reach the fallback. The result goes with the calls issued.
\<close>

definition generate_smart_search_queries ::
  "world \<Rightarrow> config \<Rightarrow> http_call list \<Rightarrow> string \<Rightarrow> pydict \<Rightarrow> string \<Rightarrow>
     string list raising \<times> http_call list" where
  "generate_smart_search_queries w cfg calls location user_prefs cuisine =
     (if mistral_api_key cfg \<noteq> []
      then (case query_context location user_prefs cuisine of
              Inl e \<Rightarrow> (generate_fallback_queries location user_prefs cuisine, calls)
            | Inr ctx \<Rightarrow>
                let task = QueryGeneration ctx;
                    calls' = calls @ [MistralPost (mistral_api_key cfg) task]
                in (case mistral_api w calls (mistral_api_key cfg) task of
                      MistralRaises e \<Rightarrow>
                        (generate_fallback_queries location user_prefs cuisine, calls')
                    | MistralResponse status content body err \<Rightarrow>
                        if status = 200
                        then (case content of
                                Inl e \<Rightarrow>
                                  (generate_fallback_queries location user_prefs cuisine, calls')
                              | Inr c \<Rightarrow>
                                  let queries = answer_lines (str_strip c) in
                                  if length queries \<ge> 3 then (Inr (take 3 queries), calls')
                                  else (generate_fallback_queries location user_prefs cuisine, calls'))
                        else (generate_fallback_queries location user_prefs cuisine, calls')))
      else (generate_fallback_queries location user_prefs cuisine, calls))"

section \<open>JSON text\<close>

text \<open>
  \<^verbatim>\<open>json.dumps\<close> with its defaults (\<^verbatim>\<open>ensure_ascii\<close>, separators \<^verbatim>\<open>", "\<close> and
  \<^verbatim>\<open>": "\<close>) on the two shapes \<^verbatim>\<open>save_user_preferences\<close> encodes: a list of strings and a
  dictionary from strings to booleans.
\<close>

definition dquote :: char where
  "dquote = CHR 0x22"

definition backslash :: char where
  "backslash = CHR 0x5C"

definition hex_digits :: string where
  "hex_digits = ''0123456789abcdef''"

definition printable :: "char \<Rightarrow> bool" where
  "printable c = (32 \<le> (of_char c :: nat) \<and> (of_char c :: nat) \<le> 126)"

definition json_escape :: "char \<Rightarrow> string" where
  "json_escape c =
     (if c = dquote then [backslash, dquote]
      else if c = backslash then [backslash, backslash]
      else if c = CHR 0x0A then [backslash, CHR ''n'']
      else if c = CHR 0x0D then [backslash, CHR ''r'']
      else if c = CHR 0x09 then [backslash, CHR ''t'']
      else if c = CHR 0x08 then [backslash, CHR ''b'']
      else if c = CHR 0x0C then [backslash, CHR ''f'']
      else if printable c then [c]
      else [backslash, CHR ''u'', CHR ''0'', CHR ''0'',
            hex_digits ! ((of_char c :: nat) div 16), hex_digits ! ((of_char c :: nat) mod 16)])"

definition json_string :: "string \<Rightarrow> string" where
  "json_string s = dquote # concat (map json_escape s) @ [dquote]"

definition dumps_strs :: "string list \<Rightarrow> string" where
  "dumps_strs xs = ''['' @ str_join '', '' (map json_string xs) @ '']''"

definition json_member :: "string \<times> bool \<Rightarrow> string" where
  "json_member kv = json_string (fst kv) @ '': '' @ (if snd kv then ''true'' else ''false'')"

definition dumps_goals :: "(string \<times> bool) list \<Rightarrow> string" where
  "dumps_goals g = ''{'' @ str_join '', '' (map json_member g) @ ''}''"

text \<open>
  \<^verbatim>\<open>json.loads\<close> on the texts whose value is \<^verbatim>\<open>null\<close>, a string, a list of strings or
  a dictionary from strings to booleans. \<^const>\<open>None\<close> is \<^verbatim>\<open>JSONDecodeError\<close>; a text
  of another shape, and a \<^verbatim>\<open>\u\<close> escape above 255, are not modelled and read as
  \<^const>\<open>None\<close> too.
\<close>

definition json_ws :: "char \<Rightarrow> bool" where
  "json_ws c = (c \<in> set [CHR 0x20, CHR 0x09, CHR 0x0A, CHR 0x0D])"

definition skip_ws :: "string \<Rightarrow> string" where
  "skip_ws s = dropWhile json_ws s"

definition hex_value :: "char \<Rightarrow> nat option" where
  "hex_value c = map_of (zip ''0123456789abcdefABCDEF''
                    [0, 1, 2, 3, 4, 5, 6, 7, 8, 9, 10, 11, 12, 13, 14, 15, 10, 11, 12, 13, 14, 15]) c"

definition hex4 :: "char \<Rightarrow> char \<Rightarrow> char \<Rightarrow> char \<Rightarrow> nat option" where
  "hex4 a b c d =
     (case (hex_value a, hex_value b, hex_value c, hex_value d) of
        (Some x, Some y, Some z, Some u) \<Rightarrow> Some (((x * 16 + y) * 16 + z) * 16 + u)
      | _ \<Rightarrow> None)"

definition unescape :: "char \<Rightarrow> char option" where
  "unescape e = map_of [(dquote, dquote), (backslash, backslash), (CHR ''/'', CHR ''/''),
                        (CHR ''b'', CHR 0x08), (CHR ''f'', CHR 0x0C), (CHR ''n'', CHR 0x0A),
                        (CHR ''r'', CHR 0x0D), (CHR ''t'', CHR 0x09)] e"

text \<open>The rest of a string literal after its opening quote: the decoded string and
  what follows the closing quote. A raw control character is refused.\<close>

fun parse_str :: "string \<Rightarrow> string \<Rightarrow> (string \<times> string) option" where
  "parse_str acc [] = None"
| "parse_str acc (c # cs) =
     (if c = dquote then Some (acc, cs)
      else if c = backslash then
        (case cs of
           [] \<Rightarrow> None
         | e # r \<Rightarrow>
             if e = CHR ''u'' then
               (case r of
                  a # b # x # y # r' \<Rightarrow>
                    (case hex4 a b x y of
                       None \<Rightarrow> None
                     | Some v \<Rightarrow> if v < 256 then parse_str (acc @ [char_of v]) r' else None)
                | _ \<Rightarrow> None)
             else (case unescape e of
                     None \<Rightarrow> None
                   | Some x \<Rightarrow> parse_str (acc @ [x]) r))
      else if (of_char c :: nat) < 32 then None
      else parse_str (acc @ [c]) cs)"

lemma parse_str_shorter:
  "parse_str acc s = Some (x, r) \<Longrightarrow> length r < length s"
  by (induction acc s rule: parse_str.induct)
     (auto split: if_splits list.splits option.splits, fastforce+)

lemma skip_ws_length: "length (skip_ws s) \<le> length s"
  by (simp add: skip_ws_def length_dropWhile_le)

lemma skip_ws_Cons_shorter: "skip_ws s = c # r \<Longrightarrow> length r < length s"
  using skip_ws_length [of s] by simp

text \<open>The elements of a list after its opening bracket, when it is not empty.\<close>

function parse_items :: "string list \<Rightarrow> string \<Rightarrow> string list option" where
  "parse_items acc s =
     (case skip_ws s of
        [] \<Rightarrow> None
      | c # r \<Rightarrow>
          if c = dquote then
            (case parse_str [] r of
               None \<Rightarrow> None
             | Some (x, r') \<Rightarrow>
                 (case skip_ws r' of
                    [] \<Rightarrow> None
                  | d # r'' \<Rightarrow>
                      if d = CHR '','' then parse_items (acc @ [x]) r''
                      else if d = CHR '']'' \<and> skip_ws r'' = [] then Some (acc @ [x])
                      else None))
          else None)"
  by pat_completeness auto

termination
proof (relation "measure (\<lambda>(acc, s). length s)", goal_cases)
  case 1
  show ?case by simp
next
  case (2 acc s c r p x r' d r'')
  have "length r < length s" using 2 skip_ws_Cons_shorter by blast
  moreover have "length r' < length r" using 2 parse_str_shorter by metis
  moreover have "length r'' < length r'" using 2 skip_ws_Cons_shorter by blast
  ultimately show ?case by simp
qed

definition parse_bool :: "string \<Rightarrow> (bool \<times> string) option" where
  "parse_bool s =
     (if starts_with ''true'' s then Some (True, drop 4 s)
      else if starts_with ''false'' s then Some (False, drop 5 s)
      else None)"

lemma parse_bool_shorter: "parse_bool s = Some (b, r) \<Longrightarrow> length r < length s"
  by (cases s) (auto simp: parse_bool_def split: if_splits)

text \<open>The members of a dictionary after its opening brace, when it is not empty. A
  key met again keeps its place and takes the later value, as in a Python dictionary.\<close>

function parse_members :: "(string \<times> bool) list \<Rightarrow> string \<Rightarrow> (string \<times> bool) list option" where
  "parse_members acc s =
     (case skip_ws s of
        [] \<Rightarrow> None
      | c # r \<Rightarrow>
          if c = dquote then
            (case parse_str [] r of
               None \<Rightarrow> None
             | Some (k, r1) \<Rightarrow>
                 (case skip_ws r1 of
                    [] \<Rightarrow> None
                  | d # r2 \<Rightarrow>
                      if d = CHR '':'' then
                        (case parse_bool (skip_ws r2) of
                           None \<Rightarrow> None
                         | Some (b, r3) \<Rightarrow>
                             (case skip_ws r3 of
                                [] \<Rightarrow> None
                              | e # r4 \<Rightarrow>
                                  if e = CHR '','' then parse_members (AList.update k b acc) r4
                                  else if e = CHR ''}'' \<and> skip_ws r4 = []
                                  then Some (AList.update k b acc)
                                  else None))
                      else None))
          else None)"
  by pat_completeness auto
termination
proof (relation "measure (\<lambda>(acc, s). length s)", goal_cases)
  case 1
  show ?case by simp
next
  case (2 acc s c r p k r1 d r2 q b r3 e r4)
  have "length r < length s" using 2 skip_ws_Cons_shorter by blast
  moreover have "length r1 < length r" using 2 parse_str_shorter by metis
  moreover have "length r2 < length r1" using 2 skip_ws_Cons_shorter by blast
  moreover have "length r3 < length (skip_ws r2)" using 2 parse_bool_shorter by metis
  moreover have "length (skip_ws r2) \<le> length r2" by (rule skip_ws_length)
  moreover have "length r4 < length r3" using 2 skip_ws_Cons_shorter by blast
  ultimately show ?case by simp
qed

definition json_loads :: "string \<Rightarrow> pyval option" where
  "json_loads s =
     (case skip_ws s of
        [] \<Rightarrow> None
      | c # r \<Rightarrow>
          if c = CHR ''['' then
            (case skip_ws r of
               [] \<Rightarrow> None
             | d # r' \<Rightarrow>
                 if d = CHR '']'' then (if skip_ws r' = [] then Some (PStrs []) else None)
                 else map_option PStrs (parse_items [] r))
          else if c = CHR ''{'' then
            (case skip_ws r of
               [] \<Rightarrow> None
             | d # r' \<Rightarrow>
                 if d = CHR ''}'' then (if skip_ws r' = [] then Some (PGoals []) else None)
                 else map_option PGoals (parse_members [] r))
          else if c = dquote then
            (case parse_str [] r of
               None \<Rightarrow> None
             | Some (x, r') \<Rightarrow> if skip_ws r' = [] then Some (PStr x) else None)
          else if starts_with ''null'' (c # r) \<and> skip_ws (drop 4 (c # r)) = [] then Some PNone
          else None)"

section \<open>Preference store and food log\<close>

text \<open>
  The SQLite file is a record of its two tables. A row holds its cells under their
  column names, in the order of the \<^verbatim>\<open>CREATE TABLE\<close> statement, which is the order
  \<^verbatim>\<open>SELECT *\<close> returns. \<^verbatim>\<open>db_fault\<close> is the message of the exception \<^verbatim>\<open>sqlite3\<close>
  raises when the file cannot be used; \<^verbatim>\<open>current_timestamp\<close> is the reading of
  \<^verbatim>\<open>CURRENT_TIMESTAMP\<close>.
\<close>

datatype sqlval =
    SqlNull
  | SqlInt int
  | SqlReal real
  | SqlText string

type_synonym row = "(string \<times> sqlval) list"

record store =
  user_preferences :: "row list"
  nutrition_logs :: "row list"
  preferences_seq :: int
  logs_seq :: int
  current_timestamp :: string
  db_fault :: "string option"

definition user_preferences_columns :: "string list" where
  "user_preferences_columns =
     [''id'', ''user_id'', ''dietary_restrictions'', ''food_allergies'', ''cuisine_preferences'',
      ''health_goals'', ''weight_goal'', ''current_weight'', ''activity_level'', ''age'',
      ''gender'', ''height_cm'', ''daily_calorie_target'', ''protein_target'', ''carb_target'',
      ''fat_target'', ''created_at'', ''updated_at'']"

definition nutrition_logs_columns :: "string list" where
  "nutrition_logs_columns = [''id'', ''user_id'', ''food_item'', ''calories'', ''timestamp'']"

text \<open>
  The preferences dictionary \<^verbatim>\<open>save_user_preferences\<close> receives, with the types of
  the data model: \<^const>\<open>None\<close> is a key the dictionary does not have.
\<close>

record preferences =
  dietary_restrictions :: "string list option"
  food_allergies :: "string list option"
  cuisine_preferences :: "string list option"
  health_goals :: "(string \<times> bool) list option"
  weight_goal :: "real option"
  current_weight :: "real option"
  activity_level :: "string option"
  age :: "int option"
  gender :: "string option"
  height_cm :: "real option"
  daily_calorie_target :: "int option"
  protein_target :: "real option"
  carb_target :: "real option"
  fat_target :: "real option"

text \<open>Binding a Python value to a statement parameter. An integer outside the 64-bit
  range, a list and a dictionary are refused by \<^verbatim>\<open>sqlite3\<close>.\<close>

fun bind_value :: "pyval \<Rightarrow> sqlval raising" where
  "bind_value PNone = Inr SqlNull"
| "bind_value (PInt i) =
     (if - (2 ^ 63) \<le> i \<and> i < 2 ^ 63 then Inr (SqlInt i)
      else Inl ''Python int too large to convert to SQLite INTEGER'')"
| "bind_value (PFloat r) = Inr (SqlReal r)"
| "bind_value (PStr s) = Inr (SqlText s)"
| "bind_value (PStrs xs) = Inl ''Error binding parameter: type list is not supported''"
| "bind_value (PGoals g) = Inl ''Error binding parameter: type dict is not supported''"

fun bind_values :: "pyval list \<Rightarrow> sqlval list raising" where
  "bind_values [] = Inr []"
| "bind_values (v # vs) =
     (case bind_value v of
        Inl e \<Rightarrow> Inl e
      | Inr x \<Rightarrow> (case bind_values vs of Inl e \<Rightarrow> Inl e | Inr xs \<Rightarrow> Inr (x # xs)))"

text \<open>\<^verbatim>\<open>preferences.get(key)\<close> for the scalar fields.\<close>

definition opt_int :: "int option \<Rightarrow> pyval" where
  "opt_int v = (case v of None \<Rightarrow> PNone | Some i \<Rightarrow> PInt i)"

definition opt_float :: "real option \<Rightarrow> pyval" where
  "opt_float v = (case v of None \<Rightarrow> PNone | Some r \<Rightarrow> PFloat r)"

definition opt_str :: "string option \<Rightarrow> pyval" where
  "opt_str v = (case v of None \<Rightarrow> PNone | Some s \<Rightarrow> PStr s)"

text \<open>\<^verbatim>\<open>preferences.get(key, [])\<close> and \<^verbatim>\<open>preferences.get(key, {})\<close>.\<close>

definition or_empty :: "'a list option \<Rightarrow> 'a list" where
  "or_empty v = (case v of None \<Rightarrow> [] | Some xs \<Rightarrow> xs)"

text \<open>The row an \<^verbatim>\<open>INSERT\<close> builds: each column of the table takes the value given
  for it in the statement, or its default.\<close>

definition make_row :: "string list \<Rightarrow> string list \<Rightarrow> sqlval list \<Rightarrow> (string \<Rightarrow> sqlval) \<Rightarrow> row" where
  "make_row table_columns columns vals dflt =
     map (\<lambda>c. (c, case map_of (zip columns vals) c of Some v \<Rightarrow> v | None \<Rightarrow> dflt c))
       table_columns"

text \<open>
  \<^verbatim>\<open>save_user_preferences\<close>. \<^verbatim>\<open>INSERT OR REPLACE\<close> removes the row that holds the same
  \<^verbatim>\<open>user_id\<close> (the column is \<^verbatim>\<open>UNIQUE\<close>) and adds the new row, with a fresh \<^verbatim>\<open>id\<close> and
  the default \<^verbatim>\<open>created_at\<close>. An exception leaves the file as it was and becomes the
  error message.
\<close>

definition save_user_preferences :: "store \<Rightarrow> string \<Rightarrow> preferences \<Rightarrow> string \<times> store" where
  "save_user_preferences st user_id prefs =
     (case db_fault st of
        Some e \<Rightarrow> (msg_save_error e, st)
      | None \<Rightarrow>
          let dietary = dumps_strs (or_empty (dietary_restrictions prefs));
              allergies = dumps_strs (or_empty (food_allergies prefs));
              cuisines = dumps_strs (or_empty (cuisine_preferences prefs));
              goals = dumps_goals (or_empty (health_goals prefs))
          in
          (case bind_values
                  [PStr user_id, PStr dietary, PStr allergies, PStr cuisines, PStr goals,
                   opt_float (weight_goal prefs), opt_float (current_weight prefs),
                   opt_str (activity_level prefs), opt_int (age prefs),
                   opt_str (gender prefs), opt_float (height_cm prefs),
                   opt_int (daily_calorie_target prefs), opt_float (protein_target prefs),
                   opt_float (carb_target prefs), opt_float (fat_target prefs)] of
             Inl e \<Rightarrow> (msg_save_error e, st)
           | Inr vals \<Rightarrow>
               let new_id = preferences_seq st + 1;
                   new_row = make_row user_preferences_columns
                     [''user_id'', ''dietary_restrictions'', ''food_allergies'',
                      ''cuisine_preferences'', ''health_goals'', ''weight_goal'',
                      ''current_weight'', ''activity_level'', ''age'', ''gender'', ''height_cm'',
                      ''daily_calorie_target'', ''protein_target'', ''carb_target'',
                      ''fat_target'', ''updated_at'']
                     (vals @ [SqlText (current_timestamp st)])
                     (\<lambda>c. if c = ''id'' then SqlInt new_id
                          else if c = ''created_at'' then SqlText (current_timestamp st)
                          else SqlNull);
                   kept = filter (\<lambda>r. map_of r ''user_id'' \<noteq> Some (SqlText user_id))
                            (user_preferences st)
               in (msg_save_ok,
                   st\<lparr>user_preferences := kept @ [new_row], preferences_seq := new_id\<rparr>)))"

text \<open>A cell as the Python value \<^verbatim>\<open>sqlite3\<close> returns for it.\<close>

fun py_of_sql :: "sqlval \<Rightarrow> pyval" where
  "py_of_sql SqlNull = PNone"
| "py_of_sql (SqlInt i) = PInt i"
| "py_of_sql (SqlReal r) = PFloat r"
| "py_of_sql (SqlText s) = PStr s"

text \<open>
  The four \<^verbatim>\<open>json.loads\<close> assignments of \<^verbatim>\<open>get_user_preferences\<close>, in their order, for
  the keys that are left. \<^verbatim>\<open>JSONDecodeError\<close> ends them and keeps the dictionary as it
  is by then; a value that is no string makes \<^verbatim>\<open>json.loads\<close> raise \<^verbatim>\<open>TypeError\<close>.
\<close>

fun parse_json_fields :: "(string \<times> string) list \<Rightarrow> pydict \<Rightarrow> pydict raising" where
  "parse_json_fields [] d = Inr d"
| "parse_json_fields ((k, dflt) # ks) d =
     (case (case map_of d k of None \<Rightarrow> PStr dflt | Some v \<Rightarrow> v) of
        PStr s \<Rightarrow>
          (case json_loads s of
             None \<Rightarrow> Inr d
           | Some v \<Rightarrow> parse_json_fields ks (AList.update k v d))
      | _ \<Rightarrow> Inl ''the JSON object must be str, bytes or bytearray'')"

text \<open>
  \<^verbatim>\<open>get_user_preferences\<close>: the row of the user as a dictionary, its four JSON columns
  decoded; the empty dictionary when there is no row and when anything raises.
\<close>

definition get_user_preferences :: "store \<Rightarrow> string \<Rightarrow> pydict" where
  "get_user_preferences st user_id =
     (case db_fault st of
        Some e \<Rightarrow> []
      | None \<Rightarrow>
          (case find (\<lambda>r. map_of r ''user_id'' = Some (SqlText user_id)) (user_preferences st) of
             None \<Rightarrow> []
           | Some r \<Rightarrow>
               (case parse_json_fields
                       [(''dietary_restrictions'', ''[]''), (''food_allergies'', ''[]''),
                        (''cuisine_preferences'', ''[]''), (''health_goals'', ''{}'')]
                       (map (\<lambda>cv. (fst cv, py_of_sql (snd cv))) r) of
                  Inl e \<Rightarrow> []
                | Inr d \<Rightarrow> d)))"

text \<open>\<^verbatim>\<open>str(v)\<close> in an f-string; the printing of floats, lists and dictionaries is the
  world's.\<close>

definition py_str :: "world \<Rightarrow> pyval \<Rightarrow> string" where
  "py_str w v =
     (case v of
        PNone \<Rightarrow> ''None''
      | PInt i \<Rightarrow> str_int i
      | PStr s \<Rightarrow> s
      | _ \<Rightarrow> py_repr w v)"

text \<open>
  \<^verbatim>\<open>log_food_intake\<close>. The cells hold the values as bound: the conversions of SQLite's
  column affinity are not modelled for this table, which no modelled method reads.
\<close>

definition log_food_intake :: "world \<Rightarrow> store \<Rightarrow> string \<Rightarrow> pyval \<Rightarrow> pyval \<Rightarrow> string \<times> store" where
  "log_food_intake w st user_id food_item calories =
     (case db_fault st of
        Some e \<Rightarrow> (msg_log_failed e, st)
      | None \<Rightarrow>
          (case bind_values [PStr user_id, food_item, calories] of
             Inl e \<Rightarrow> (msg_log_failed e, st)
           | Inr vals \<Rightarrow>
               let new_id = logs_seq st + 1;
                   new_row = make_row nutrition_logs_columns
                     [''user_id'', ''food_item'', ''calories''] vals
                     (\<lambda>c. if c = ''id'' then SqlInt new_id
                          else if c = ''timestamp'' then SqlText (current_timestamp st)
                          else SqlNull)
               in (msg_logged (py_str w food_item) (py_str w calories),
                   st\<lparr>nutrition_logs := nutrition_logs st @ [new_row], logs_seq := new_id\<rparr>)))"

section \<open>Search aggregator\<close>

text \<open>
  The dictionary \<^verbatim>\<open>search_restaurants\<close> returns: a message, a count or a list of
  results under each key.
\<close>

datatype search_value =
    Message string
  | Count nat
  | Results "search_result list"

type_synonym search_dict = "(string \<times> search_value) list"

text \<open>
  The query loop of \<^verbatim>\<open>search_restaurants\<close>, from the state the loop variables
  \<^verbatim>\<open>all_results\<close> and \<^verbatim>\<open>successful_queries\<close> are in. Each query is one attempted
  request; an exception and a status other than 200 go on to the next query, and the
  loop is left once ten results have been gathered.
\<close>

fun query_loop ::
  "world \<Rightarrow> config \<Rightarrow> string list \<Rightarrow> search_result list \<Rightarrow> nat \<Rightarrow> http_call list \<Rightarrow>
     search_result list \<times> nat \<times> http_call list" where
  "query_loop w cfg [] all_results successful_queries calls =
     (all_results, successful_queries, calls)"
| "query_loop w cfg (query # rest) all_results successful_queries calls =
     (let calls' = calls @ [ExaPost (exa_api_key cfg) query] in
      case exa_api w calls (exa_api_key cfg) query of
        ExaRaises e \<Rightarrow> query_loop w cfg rest all_results successful_queries calls'
      | ExaResponse status results body \<Rightarrow>
          if status = 200
          then (case results of
                  Inl e \<Rightarrow> query_loop w cfg rest all_results successful_queries calls'
                | Inr rs \<Rightarrow>
                    if length (all_results @ rs) \<ge> 10
                    then (all_results @ rs, successful_queries + 1, calls')
                    else query_loop w cfg rest (all_results @ rs) (successful_queries + 1) calls')
          else query_loop w cfg rest all_results successful_queries calls')"

text \<open>\<^verbatim>\<open>result.get("url", "")\<close>\<close>

definition get_url :: "search_result \<Rightarrow> string" where
  "get_url result = (case result_url result of None \<Rightarrow> [] | Some u \<Rightarrow> u)"

text \<open>The loop that removes duplicates, from the state \<^verbatim>\<open>seen_urls\<close> and
  \<^verbatim>\<open>unique_results\<close> are in.\<close>

fun remove_duplicates ::
  "search_result list \<Rightarrow> string set \<Rightarrow> search_result list \<Rightarrow> search_result list" where
  "remove_duplicates [] seen_urls unique_results = unique_results"
| "remove_duplicates (result # rest) seen_urls unique_results =
     (if get_url result \<noteq> [] \<and> get_url result \<notin> seen_urls
      then remove_duplicates rest (insert (get_url result) seen_urls) (unique_results @ [result])
      else remove_duplicates rest seen_urls unique_results)"

text \<open>
  For the statement of first-seen order: position \<^verbatim>\<open>i\<close> of a list of results holds a
  URL that is not empty, not in \<^verbatim>\<open>seen\<close> and at no earlier position of the list.
\<close>

definition first_seen_at :: "search_result list \<Rightarrow> string set \<Rightarrow> nat \<Rightarrow> bool" where
  "first_seen_at rs seen i =
     (get_url (rs ! i) \<noteq> [] \<and> get_url (rs ! i) \<notin> seen \<union> get_url ` set (take i rs))"

text \<open>
  The post-pass of \<^verbatim>\<open>search_restaurants\<close> (lines 607 to 630): the duplicates are
  removed and one of the two result shapes is built, from the number of queries, the
  number of successful calls and the results gathered.
\<close>

definition post_pass :: "nat \<Rightarrow> nat \<Rightarrow> search_result list \<Rightarrow> search_dict" where
  "post_pass n_queries successful_queries all_results =
     (let unique_results = remove_duplicates all_results {} [] in
      if unique_results = []
      then [(''results'', Results []),
            (''total_found'', Count 0),
            (''debug_info'',
             Message (msg_debug_empty (str_nat n_queries) (str_nat successful_queries)))]
      else [(''results'', Results (take 8 unique_results)),
            (''total_found'', Count (length unique_results)),
            (''debug_info'',
             Message (msg_debug_found (str_nat (length unique_results))
                        (str_nat successful_queries)))])"

text \<open>\<^verbatim>\<open>v[0]\<close> for a truthy value: the first element of a list, the first character
  of a string; a dictionary has no key 0 and a number no items.\<close>

fun first_item :: "pyval \<Rightarrow> string raising" where
  "first_item (PStrs (x # xs)) = Inr x"
| "first_item (PStrs []) = Inl ''list index out of range''"
| "first_item (PStr (c # cs)) = Inr [c]"
| "first_item (PStr []) = Inl ''string index out of range''"
| "first_item (PGoals g) = Inl ''0''"
| "first_item (PInt i) = Inl ''int object is not subscriptable''"
| "first_item (PFloat r) = Inl ''float object is not subscriptable''"
| "first_item PNone = Inl ''NoneType object is not subscriptable''"

text \<open>
  \<^verbatim>\<open>search_restaurants\<close>. A user identifier is a string here, the empty one also for
  \<^verbatim>\<open>None\<close>: the code only tests whether it is truthy before it uses it. An exception
  after the credential test becomes the \<^verbatim>\<open>Search failed\<close> error shape.
\<close>

definition search_restaurants ::
  "world \<Rightarrow> config \<Rightarrow> store \<Rightarrow> http_call list \<Rightarrow> string \<Rightarrow> string \<Rightarrow> string \<Rightarrow>
     search_dict \<times> http_call list" where
  "search_restaurants w cfg st calls location cuisine user_id =
     (if exa_api_key cfg = []
      then ([(''error'', Message msg_exa_key_missing)], calls)
      else
        let user_prefs = (if user_id \<noteq> [] then get_user_preferences st user_id else []) in
        (case (if cuisine = [] \<and> truthy (dict_get user_prefs ''cuisine_preferences'')
               then first_item (dict_get user_prefs ''cuisine_preferences'')
               else Inr cuisine) of
           Inl e \<Rightarrow> ([(''error'', Message (msg_search_failed e))], calls)
         | Inr cuisine' \<Rightarrow>
             (case generate_smart_search_queries w cfg calls location user_prefs cuisine' of
                (Inl e, calls1) \<Rightarrow> ([(''error'', Message (msg_search_failed e))], calls1)
              | (Inr search_queries, calls1) \<Rightarrow>
                  (case query_loop w cfg (take 6 search_queries) [] 0 calls1 of
                     (all_results, successful_queries, calls2) \<Rightarrow>
                       (post_pass (length search_queries) successful_queries all_results,
                        calls2)))))"

section \<open>Response synthesizer\<close>

text \<open>\<^verbatim>\<open>enumerate(xs, 1)\<close>\<close>

definition enumerate1 :: "'a list \<Rightarrow> (nat \<times> 'a) list" where
  "enumerate1 xs = zip [1..<Suc (length xs)] xs"

definition get_title :: "string \<Rightarrow> search_result \<Rightarrow> string" where
  "get_title dflt result = (case result_title result of None \<Rightarrow> dflt | Some t \<Rightarrow> t)"

definition get_text :: "search_result \<Rightarrow> string" where
  "get_text result = (case result_text result of None \<Rightarrow> [] | Some t \<Rightarrow> t)"

text \<open>The three listings of \<^verbatim>\<open>_generate_ai_restaurant_recommendations\<close>: without a
  credential, after a status other than 200, and after an exception.\<close>

definition found_listing :: "search_result list \<Rightarrow> string \<Rightarrow> string" where
  "found_listing results location =
     msg_found_header (str_nat (length results)) location @
     concat (map (\<lambda>ir. msg_found_item (str_nat (fst ir)) (get_title ''Restaurant'' (snd ir))
                           (get_url (snd ir)))
               (enumerate1 (take 5 results)))"

definition options_listing :: "search_result list \<Rightarrow> string \<Rightarrow> string" where
  "options_listing results location =
     msg_options_header (str_nat (length results)) location @
     concat (map (\<lambda>ir. msg_option_title (str_nat (fst ir)) (get_title ''Restaurant'' (snd ir)) @
                        (if get_url (snd ir) \<noteq> [] then msg_option_link (get_url (snd ir)) else []) @
                        nl)
               (enumerate1 (take 5 results)))"

definition plain_listing :: "search_result list \<Rightarrow> string \<Rightarrow> string" where
  "plain_listing results location =
     msg_plain_header (str_nat (length results)) location @
     concat (map (\<lambda>ir. msg_plain_item (str_nat (fst ir)) (get_title ''Restaurant'' (snd ir)))
               (enumerate1 (take 5 results)))"

text \<open>The entry of one result in the prompt.\<close>

definition restaurant_info :: "nat \<times> search_result \<Rightarrow> string" where
  "restaurant_info ir =
     (let i = fst ir; result = snd ir;
          clean_text = replace_char CHR 0x0D CHR '' '' (replace_char CHR 0x0A CHR '' '' (get_text result));
          snippet = (if length clean_text > 200 then take 200 clean_text @ ''...'' else clean_text)
      in str_nat i @ ''. '' @ get_title (''Restaurant '' @ str_nat i) result @
         (if get_url result \<noteq> [] then '' ('' @ get_url result @ '')'' else []) @
         (if snippet \<noteq> [] then '' - '' @ snippet else []))"

definition recommendation_context :: "pydict \<Rightarrow> string raising" where
  "recommendation_context user_prefs =
     (if user_prefs = [] then Inr ''No specific dietary preferences''
      else
      and_then (add_part (dict_get user_prefs ''dietary_restrictions'')
                  (labelled_join ''Dietary restrictions: '') []) (\<lambda>parts.
      and_then (add_part (dict_get user_prefs ''food_allergies'')
                  (labelled_join ''Food allergies: '') parts) (\<lambda>parts.
      and_then (add_part (dict_get user_prefs ''health_goals'')
                  (labelled_goals ''Health goals: '' str_title) parts) (\<lambda>parts.
      Inr (if parts \<noteq> [] then str_join '' | '' parts
           else ''No specific dietary preferences'')))))"

text \<open>\<^verbatim>\<open>_generate_ai_restaurant_recommendations\<close>; the whole body is inside
  \<^verbatim>\<open>try\<close>.\<close>

definition generate_ai_restaurant_recommendations ::
  "world \<Rightarrow> config \<Rightarrow> http_call list \<Rightarrow> search_result list \<Rightarrow> string \<Rightarrow> pydict \<Rightarrow>
     string \<times> http_call list" where
  "generate_ai_restaurant_recommendations w cfg calls results location user_prefs =
     (if mistral_api_key cfg = [] then (found_listing results location, calls)
      else
        (case recommendation_context user_prefs of
           Inl e \<Rightarrow> (plain_listing results location, calls)
         | Inr user_context \<Rightarrow>
             let restaurant_list = str_join nl (map restaurant_info (enumerate1 (take 8 results)));
                 task = RestaurantRecommendations user_context location (length results)
                          restaurant_list;
                 calls' = calls @ [MistralPost (mistral_api_key cfg) task]
             in (case mistral_api w calls (mistral_api_key cfg) task of
                   MistralRaises e \<Rightarrow> (plain_listing results location, calls')
                 | MistralResponse status content body err \<Rightarrow>
                     if status = 200
                     then (case content of
                             Inl e \<Rightarrow> (plain_listing results location, calls')
                           | Inr c \<Rightarrow> (str_strip c, calls'))
                     else (options_listing results location, calls'))))"

text \<open>
  \<^verbatim>\<open>format_restaurant_results\<close>. Of the dictionary it reads the message under
  \<^verbatim>\<open>error\<close>, the list under \<^verbatim>\<open>results\<close> and the message under \<^verbatim>\<open>debug_info\<close>;
  \<^verbatim>\<open>search_restaurants\<close> puts no other kind of value under these keys, and another
  kind reads as a missing key here.
\<close>

definition results_of :: "search_dict \<Rightarrow> search_result list" where
  "results_of d = (case map_of d ''results'' of Some (Results rs) \<Rightarrow> rs | _ \<Rightarrow> [])"

definition debug_info_of :: "search_dict \<Rightarrow> string" where
  "debug_info_of d = (case map_of d ''debug_info'' of Some (Message m) \<Rightarrow> m | _ \<Rightarrow> [])"

definition format_restaurant_results ::
  "world \<Rightarrow> config \<Rightarrow> http_call list \<Rightarrow> search_dict \<Rightarrow> string \<Rightarrow> pydict \<Rightarrow>
     string \<times> http_call list" where
  "format_restaurant_results w cfg calls search_results location user_prefs =
     (case map_of search_results ''error'' of
        Some (Message error_msg) \<Rightarrow>
          if str_in ''EXA_API_KEY'' error_msg
          then (msg_search_unavailable error_msg location, calls)
          else (msg_search_issue error_msg location, calls)
      | Some other \<Rightarrow> (msg_format_trouble location, calls)
      | None \<Rightarrow>
          let results = results_of search_results;
              debug_info = debug_info_of search_results
          in if results = []
             then (msg_no_results location
                     (if debug_info \<noteq> [] then msg_debug_suffix debug_info else []), calls)
             else generate_ai_restaurant_recommendations w cfg calls results location user_prefs)"

section \<open>Intent classifier\<close>

text \<open>\<^verbatim>\<open>validate_input\<close>; the argument is a string, so the \<^verbatim>\<open>isinstance\<close> test holds.\<close>

definition forbidden_words :: "string list" where
  "forbidden_words = [''spam'', ''abuse'', ''illegal'']"

definition validate_input :: "string \<Rightarrow> bool" where
  "validate_input user_input =
     (if user_input = [] then False
      else \<not> any_in forbidden_words (str_lower user_input))"

definition food_logging_keywords :: "string list" where
  "food_logging_keywords =
     [''ate'', ''eaten'', ''consumed'', ''had'', ''drank'', ''drank'',
      ''log food'', ''log meal'', ''log calories'', ''track food'', ''track meal'',
      ''add food'', ''add meal'', ''record food'', ''record meal'',
      ''just ate'', ''just had'', ''just consumed'',
      ''breakfast'', ''lunch'', ''dinner'', ''snack'', ''meal'']"

text \<open>\<^verbatim>\<open>_is_food_logging_request\<close>\<close>

definition is_food_logging_request :: "string \<Rightarrow> bool" where
  "is_food_logging_request query = any_in food_logging_keywords (str_lower query)"

definition restaurant_keywords :: "string list" where
  "restaurant_keywords =
     [''restaurant'', ''dining'', ''eat out'', ''dinner'', ''lunch'', ''breakfast'', ''food place'',
      ''cafe'', ''eatery'', ''bar'', ''bistro'', ''dine'', ''meal'']"

definition food_keywords :: "string list" where
  "food_keywords =
     [''serving'', ''food'', ''cuisine'', ''dish'', ''fish'', ''chicken'', ''vegetarian'', ''vegan'',
      ''italian'', ''chinese'', ''indian'', ''pizza'', ''burger'', ''sushi'', ''seafood'']"

definition location_indicators :: "string list" where
  "location_indicators = [''in '', ''at '', ''near '', ''around '', ''for '', ''at '']"

text \<open>The place names of the food and location pattern.\<close>

definition pattern_places :: "string list" where
  "pattern_places =
     [''pune'', ''mumbai'', ''delhi'', ''bangalore'', ''hyderabad'', ''chennai'', ''kolkata'',
      ''gurgaon'', ''noida'', ''bandra'', ''andheri'', ''powai'']"

definition common_places :: "string list" where
  "common_places =
     [''pune'', ''mumbai'', ''delhi'', ''bangalore'', ''hyderabad'', ''chennai'', ''kolkata'',
      ''gurgaon'', ''noida'', ''bandra'', ''andheri'', ''powai'', ''koregaon park'',
      ''viman nagar'', ''whitefield'', ''indiranagar'', ''connaught place'', ''karol bagh'',
      ''cyber city'', ''sector 29'', ''mg road'', ''brigade road'']"

text \<open>\<^verbatim>\<open>s.split(sep)\<close> for a separator of any length: the pieces between the
  occurrences found from the left. Python refuses the empty separator, which the code
  never passes; here it splits nothing.\<close>

fun split_sep :: "string \<Rightarrow> string \<Rightarrow> string \<Rightarrow> string list" where
  "split_sep sep cur [] = [cur]"
| "split_sep sep cur (c # cs) =
     (if sep \<noteq> [] \<and> starts_with sep (c # cs)
      then cur # split_sep sep [] (drop (length sep) (c # cs))
      else split_sep sep (cur @ [c]) cs)"

text \<open>The words taken as the location in strategy 1: each word stripped of
  \<^verbatim>\<open>.,!?\<close>, up to the first that is empty or neither title-cased nor longer than three
  characters.\<close>

fun location_words_of :: "string list \<Rightarrow> string list" where
  "location_words_of [] = []"
| "location_words_of (word # rest) =
     (let clean_word = strip_chars ''.,!?'' word in
      if clean_word \<noteq> [] \<and> (str_istitle clean_word \<or> length clean_word > 3)
      then clean_word # location_words_of rest
      else [])"

text \<open>Strategy 1, the loop over the location indicators: the first indicator that
  occurs in the query and is followed by location words gives the location.\<close>

fun indicator_loop :: "string list \<Rightarrow> string \<Rightarrow> string option" where
  "indicator_loop [] query_lower = None"
| "indicator_loop (indicator # rest) query_lower =
     (if str_in indicator query_lower
      then (let parts = split_sep indicator [] query_lower in
            if length parts > 1
            then (let remaining_text = str_strip (parts ! 1);
                      words = str_split remaining_text;
                      location_words = location_words_of (take 4 words)
                  in if location_words \<noteq> []
                     then Some (str_title (str_join '' '' location_words))
                     else indicator_loop rest query_lower)
            else indicator_loop rest query_lower)
      else indicator_loop rest query_lower)"

text \<open>Strategy 2, the loop over the common places; \<^verbatim>\<open>location\<close> stays as it is when
  no place occurs in the query.\<close>

fun place_loop :: "string list \<Rightarrow> string \<Rightarrow> string option \<Rightarrow> string option" where
  "place_loop [] query_lower location = location"
| "place_loop (place # rest) query_lower location =
     (if str_in place query_lower then Some (str_title place)
      else place_loop rest query_lower location)"

text \<open>
  Strategy 3, \<^verbatim>\<open>re.findall(r'\b[A-Z][a-z]+(?:\s+[A-Z][a-z]+)*\b', query)\<close>.
  \<^verbatim>\<open>cap_word\<close> is \<^verbatim>\<open>[A-Z][a-z]+\<close> at the start of a string, with what follows it;
  \<^verbatim>\<open>next_word\<close> is one round of the group \<^verbatim>\<open>\s+[A-Z][a-z]+\<close>. Both repetitions are
  greedy and a shorter repetition never matches, since the character after it is of
  the class repeated.
\<close>

definition is_word :: "char \<Rightarrow> bool" where
  "is_word c = (is_upper c \<or> is_lower c \<or> is_digit c \<or> c = CHR ''_'')"

definition cap_word :: "string \<Rightarrow> (string \<times> string) option" where
  "cap_word s =
     (case s of
        [] \<Rightarrow> None
      | c # cs \<Rightarrow>
          if is_upper c \<and> takeWhile is_lower cs \<noteq> []
          then Some (c # takeWhile is_lower cs, dropWhile is_lower cs)
          else None)"

definition next_word :: "string \<Rightarrow> (string \<times> string) option" where
  "next_word r =
     (if takeWhile is_space r = [] then None
      else (case cap_word (dropWhile is_space r) of
              None \<Rightarrow> None
            | Some (word, r') \<Rightarrow> Some (takeWhile is_space r @ word, r')))"

text \<open>\<^verbatim>\<open>\b\<close> after a matched word: the end of the string or a character that is no
  word character.\<close>

definition at_boundary :: "string \<Rightarrow> bool" where
  "at_boundary r = (case r of [] \<Rightarrow> True | c # cs \<Rightarrow> \<not> is_word c)"

lemma cap_word_shorter: "cap_word s = Some (word, r) \<Longrightarrow> length r < length s"
  by (cases s) (auto simp: cap_word_def length_dropWhile_le less_Suc_eq_le split: if_splits)

lemma next_word_shorter: "next_word r = Some (m, r') \<Longrightarrow> length r' < length r"
proof -
  assume a: "next_word r = Some (m, r')"
  then obtain word where "cap_word (dropWhile is_space r) = Some (word, r')"
    by (auto simp: next_word_def split: if_splits option.splits)
  then have "length r' < length (dropWhile is_space r)" by (rule cap_word_shorter)
  moreover have "length (dropWhile is_space r) \<le> length r" by (rule length_dropWhile_le)
  ultimately show ?thesis by simp
qed

text \<open>The match that starts with the words \<^verbatim>\<open>m\<close> already matched and goes on in
  \<^verbatim>\<open>r\<close>: the longest run of further words first, and the match ends where the
  boundary holds.\<close>

function longest_run :: "string \<Rightarrow> string \<Rightarrow> (string \<times> string) option" where
  "longest_run m r =
     (case next_word r of
        None \<Rightarrow> if at_boundary r then Some (m, r) else None
      | Some (extra, r') \<Rightarrow>
          (case longest_run (m @ extra) r' of
             Some found \<Rightarrow> Some found
           | None \<Rightarrow> if at_boundary r then Some (m, r) else None))"
  by pat_completeness auto
termination
  by (relation "measure (\<lambda>(m, r). length r)") (auto dest: next_word_shorter)

definition match_here :: "string \<Rightarrow> (string \<times> string) option" where
  "match_here s = (case cap_word s of None \<Rightarrow> None | Some (word, r) \<Rightarrow> longest_run word r)"

lemma longest_run_shorter: "longest_run m r = Some (found, r') \<Longrightarrow> length r' \<le> length r"
proof (induction m r rule: longest_run.induct)
  case (1 m r)
  show ?case
  proof (cases "next_word r")
    case None
    with 1 show ?thesis by (auto split: if_splits)
  next
    case (Some p)
    obtain extra r2 where p: "p = (extra, r2)" by (cases p)
    have s: "length r2 < length r" using Some p next_word_shorter by blast
    show ?thesis
    proof (cases "longest_run (m @ extra) r2")
      case None
      with 1 Some p show ?thesis by (auto split: if_splits)
    next
      case (Some q)
      with 1 \<open>next_word r = Some p\<close> p s show ?thesis by fastforce
    qed
  qed
qed

lemma match_here_shorter: "match_here s = Some (found, r) \<Longrightarrow> length r < length s"
proof -
  assume a: "match_here s = Some (found, r)"
  then obtain word r1 where c: "cap_word s = Some (word, r1)"
    by (cases "cap_word s") (auto simp: match_here_def)
  with a have "longest_run word r1 = Some (found, r)" by (simp add: match_here_def)
  then have "length r \<le> length r1" by (rule longest_run_shorter)
  moreover have "length r1 < length s" using c by (rule cap_word_shorter)
  ultimately show ?thesis by simp
qed

text \<open>\<^verbatim>\<open>findall\<close> from the left; \<^verbatim>\<open>prev_word\<close> tells whether the character before is
  a word character, in which case no match starts here.\<close>

function findall_from :: "bool \<Rightarrow> string \<Rightarrow> string list" where
  "findall_from prev_word [] = []"
| "findall_from prev_word (c # cs) =
     (if prev_word then findall_from (is_word c) cs
      else (case match_here (c # cs) of
              None \<Rightarrow> findall_from (is_word c) cs
            | Some (found, r) \<Rightarrow> found # findall_from True r))"
  by pat_completeness auto
termination
proof (relation "measure (\<lambda>(p, s). length s)", goal_cases)
  case 1
  show ?case by simp
next
  case (2 prev_word c cs)
  show ?case by simp
next
  case (3 prev_word c cs)
  show ?case by simp
next
  case (4 prev_word c cs p found r)
  then have "match_here (c # cs) = Some (found, r)" by simp
  then have "length r < length (c # cs)" by (rule match_here_shorter)
  then show ?case by simp
qed

text \<open>\<^verbatim>\<open>max(matches, key=len)\<close>: the first of the longest.\<close>

fun longest :: "string list \<Rightarrow> string" where
  "longest [] = []"
| "longest [m] = m"
| "longest (m # n # ms) = (if length (longest (n # ms)) > length m then longest (n # ms) else m)"

text \<open>\<^verbatim>\<open>not location\<close>\<close>

definition no_location :: "string option \<Rightarrow> bool" where
  "no_location location = (case location of None \<Rightarrow> True | Some l \<Rightarrow> l = [])"

definition is_restaurant_query :: "string \<Rightarrow> bool" where
  "is_restaurant_query query =
     (let query_lower = str_lower query;
          has_restaurant_keyword = any_in restaurant_keywords query_lower;
          has_food_location_pattern =
            (any_in food_keywords query_lower \<and> any_in pattern_places query_lower)
      in has_restaurant_keyword \<or> has_food_location_pattern)"

text \<open>
  \<^verbatim>\<open>detect_restaurant_query\<close>: the variable \<^verbatim>\<open>location\<close> goes through the three
  strategies, the second and the third guarded by \<^verbatim>\<open>if not location\<close>.
\<close>

definition detect_restaurant_query :: "string \<Rightarrow> string option" where
  "detect_restaurant_query query =
     (if is_restaurant_query query
      then (let query_lower = str_lower query;
                location = indicator_loop location_indicators query_lower;
                location = (if no_location location
                            then place_loop common_places query_lower location
                            else location);
                location = (if no_location location
                            then (let matches = findall_from False query in
                                  if matches \<noteq> [] then Some (longest matches) else location)
                            else location)
            in location)
      else None)"

text \<open>
  For the statement of the order of the strategies: what each of the three strategies
  yields on its own, started with no location found.
\<close>

definition strategy_1 :: "string \<Rightarrow> string option" where
  "strategy_1 query = indicator_loop location_indicators (str_lower query)"

definition strategy_2 :: "string \<Rightarrow> string option" where
  "strategy_2 query = place_loop common_places (str_lower query) None"

definition strategy_3 :: "string \<Rightarrow> string option" where
  "strategy_3 query =
     (let matches = findall_from False query in
      if matches \<noteq> [] then Some (longest matches) else None)"

section \<open>Advice, workout plans and food logging\<close>

text \<open>A context part for a truthy value printed between a label and an ending.\<close>

definition printed_part :: "world \<Rightarrow> string \<Rightarrow> pyval \<Rightarrow> string \<Rightarrow> string list" where
  "printed_part w label v ending = (if truthy v then [label @ py_str w v @ ending] else [])"

definition advice_context :: "world \<Rightarrow> pydict \<Rightarrow> string raising" where
  "advice_context w user_prefs =
     (let parts =
            printed_part w ''Age: '' (dict_get user_prefs ''age'') [] @
            printed_part w ''Gender: '' (dict_get user_prefs ''gender'') [] @
            (if truthy (dict_get user_prefs ''current_weight'') \<and>
                truthy (dict_get user_prefs ''height_cm'')
             then [''Current weight: '' @ py_str w (dict_get user_prefs ''current_weight'') @
                   ''kg, Height: '' @ py_str w (dict_get user_prefs ''height_cm'') @ ''cm'']
             else []) @
            printed_part w ''Weight goal: '' (dict_get user_prefs ''weight_goal'') ''kg'' @
            printed_part w ''Activity level: '' (dict_get user_prefs ''activity_level'') [] @
            printed_part w ''Daily calorie target: '' (dict_get user_prefs ''daily_calorie_target'')
              '' calories''
      in
      and_then (add_part (dict_get user_prefs ''dietary_restrictions'')
                  (labelled_join ''Dietary restrictions: '') parts) (\<lambda>parts.
      and_then (add_part (dict_get user_prefs ''food_allergies'')
                  (labelled_join ''Food allergies: '') parts) (\<lambda>parts.
      and_then (add_part (dict_get user_prefs ''health_goals'')
                  (labelled_goals ''Health goals: '' str_title) parts) (\<lambda>parts.
      Inr (if parts \<noteq> [] then ''User Profile: '' @ str_join '' | '' parts
           else ''User Profile: No specific preferences provided'')))))"

text \<open>The error message of \<^verbatim>\<open>_get_ai_nutrition_advice\<close> for a status other than
  200.\<close>

definition advice_error_msg :: "nat \<Rightarrow> string \<Rightarrow> error_body \<Rightarrow> string" where
  "advice_error_msg status body err =
     ''Mistral Agents API error: '' @ str_nat status @
     (case err of
        ErrorMessage m \<Rightarrow> '' - '' @ m
      | NoErrorKey \<Rightarrow> []
      | Unreadable \<Rightarrow> '' - '' @ take 100 body)"

text \<open>\<^verbatim>\<open>_get_ai_nutrition_advice\<close>; the whole body is inside \<^verbatim>\<open>try\<close>.\<close>

definition get_ai_nutrition_advice ::
  "world \<Rightarrow> config \<Rightarrow> http_call list \<Rightarrow> string \<Rightarrow> pydict \<Rightarrow> string \<times> http_call list" where
  "get_ai_nutrition_advice w cfg calls query user_prefs =
     (if mistral_api_key cfg = [] then (msg_mistral_key_missing, calls)
      else
        (case advice_context w user_prefs of
           Inl e \<Rightarrow> (msg_advice_error e, calls)
         | Inr user_context \<Rightarrow>
             let task = NutritionAdvice user_context query;
                 calls' = calls @ [MistralPost (mistral_api_key cfg) task]
             in (case mistral_api w calls (mistral_api_key cfg) task of
                   MistralRaises e \<Rightarrow> (msg_advice_error e, calls')
                 | MistralResponse status content body err \<Rightarrow>
                     if status = 200
                     then (case content of
                             Inl e \<Rightarrow> (msg_advice_error e, calls')
                           | Inr c \<Rightarrow> (str_strip c, calls'))
                     else if status = 401 then (msg_auth_error, calls')
                     else (msg_api_error (str_nat status) (advice_error_msg status body err),
                           calls'))))"

definition workout_context :: "world \<Rightarrow> pydict \<Rightarrow> string raising" where
  "workout_context w user_prefs =
     (let parts =
            printed_part w ''Age: '' (dict_get user_prefs ''age'') '' years'' @
            printed_part w ''Gender: '' (dict_get user_prefs ''gender'') [] @
            (if truthy (dict_get user_prefs ''current_weight'') \<and>
                truthy (dict_get user_prefs ''height_cm'')
             then [''Weight: '' @ py_str w (dict_get user_prefs ''current_weight'') @
                   ''kg, Height: '' @ py_str w (dict_get user_prefs ''height_cm'') @ ''cm'']
             else []) @
            printed_part w ''Activity Level: '' (dict_get user_prefs ''activity_level'') []
      in
      and_then (add_part (dict_get user_prefs ''health_goals'')
                  (labelled_goals ''Goals: '' str_title) parts) (\<lambda>parts.
      and_then (add_part (dict_get user_prefs ''dietary_restrictions'')
                  (labelled_join ''Diet: '') parts) (\<lambda>parts.
      Inr (if parts \<noteq> [] then str_join '' | '' parts
           else ''General fitness guidance needed''))))"

text \<open>\<^verbatim>\<open>generate_workout_plan\<close>: nothing is caught here, so a missing credential, an
  exception of the request and a status other than 200 are all raised to the caller.\<close>

definition generate_workout_plan ::
  "world \<Rightarrow> config \<Rightarrow> http_call list \<Rightarrow> pydict \<Rightarrow> string \<Rightarrow> string raising \<times> http_call list" where
  "generate_workout_plan w cfg calls user_prefs query =
     (if mistral_api_key cfg = [] then (Inl msg_workout_key_required, calls)
      else
        (case workout_context w user_prefs of
           Inl e \<Rightarrow> (Inl e, calls)
         | Inr user_context \<Rightarrow>
             let task = WorkoutPlan user_context query;
                 calls' = calls @ [MistralPost (mistral_api_key cfg) task]
             in (case mistral_api w calls (mistral_api_key cfg) task of
                   MistralRaises e \<Rightarrow> (Inl e, calls')
                 | MistralResponse status content body err \<Rightarrow>
                     if status \<noteq> 200 then (Inl (msg_workout_failed (str_nat status) body), calls')
                     else (case content of
                             Inl e \<Rightarrow> (Inl e, calls')
                           | Inr c \<Rightarrow> (Inr (str_strip c), calls')))))"

text \<open>
  \<^verbatim>\<open>_handle_food_logging_request\<close>; the whole body is inside \<^verbatim>\<open>try\<close>. The request
  is built and sent with whatever \<^verbatim>\<open>mistral_api_key\<close> holds: the method has no test of
  the credential.
\<close>

definition handle_food_logging_request ::
  "world \<Rightarrow> config \<Rightarrow> store \<Rightarrow> http_call list \<Rightarrow> string \<Rightarrow> string \<Rightarrow> pydict \<Rightarrow>
     string \<times> store \<times> http_call list" where
  "handle_food_logging_request w cfg st calls query user_id user_prefs =
     (if user_id = [] then (msg_set_user_id, st, calls)
      else
        let task = FoodExtraction query;
            calls' = calls @ [MistralPost (mistral_api_key cfg) task]
        in (case mistral_api w calls (mistral_api_key cfg) task of
              MistralRaises e \<Rightarrow> (msg_logging_error e, st, calls')
            | MistralResponse status content body err \<Rightarrow>
                if status = 200
                then (case content of
                        Inl e \<Rightarrow> (msg_logging_error e, st, calls')
                      | Inr c \<Rightarrow>
                          (case json_food w (str_strip c) of
                             NotJson \<Rightarrow> (msg_not_understood, st, calls')
                           | NotADict e \<Rightarrow> (msg_logging_error e, st, calls')
                           | FoodData food_item calories \<Rightarrow>
                               (case log_food_intake w st user_id food_item calories of
                                  (log_result, st') \<Rightarrow>
                                    let response_msg = msg_logged_ok log_result;
                                        response_msg =
                                          (if truthy (dict_get user_prefs ''daily_calorie_target'')
                                           then response_msg @
                                                msg_progress (py_str w calories)
                                                  (py_str w (dict_get user_prefs ''daily_calorie_target''))
                                           else response_msg);
                                        response_msg =
                                          (if truthy (dict_get user_prefs ''dietary_restrictions'') \<or>
                                              truthy (dict_get user_prefs ''health_goals'')
                                           then response_msg @ msg_tip
                                           else response_msg)
                                    in (response_msg, st', calls'))))
                else (msg_not_processed, st, calls')))"

section \<open>Query processing\<close>

definition workout_words :: "string list" where
  "workout_words =
     [''workout'', ''exercise'', ''fitness'', ''training'', ''gym'', ''strength'', ''cardio'', ''muscle'']"

text \<open>
  The last two routes of \<^verbatim>\<open>process_nutrition_query\<close>: a query that names a workout
  word returns what \<^verbatim>\<open>generate_workout_plan\<close> returns, or raises what it raises; every
  other query goes to \<^verbatim>\<open>_get_ai_nutrition_advice\<close>.
\<close>

definition route_to_advisers ::
  "world \<Rightarrow> config \<Rightarrow> store \<Rightarrow> http_call list \<Rightarrow> string \<Rightarrow> pydict \<Rightarrow>
     string raising \<times> store \<times> http_call list" where
  "route_to_advisers w cfg st calls query user_prefs =
     (if any_in workout_words (str_lower query)
      then (case generate_workout_plan w cfg calls user_prefs query of
              (plan, calls') \<Rightarrow> (plan, st, calls'))
      else (case get_ai_nutrition_advice w cfg calls query user_prefs of
              (answer, calls') \<Rightarrow> (Inr answer, st, calls')))"

text \<open>
  The statements of \<^verbatim>\<open>process_nutrition_query\<close> between \<^verbatim>\<open>try\<close> and \<^verbatim>\<open>except\<close>
  (lines 866 to 896), with what they return or raise.
\<close>

definition query_try_block ::
  "world \<Rightarrow> config \<Rightarrow> store \<Rightarrow> http_call list \<Rightarrow> string \<Rightarrow> string \<Rightarrow>
     string raising \<times> store \<times> http_call list" where
  "query_try_block w cfg st calls query user_id =
     (if \<not> validate_input query then (Inr msg_invalid_input, st, calls)
      else
        let user_prefs = (if user_id \<noteq> [] then get_user_preferences st user_id else []) in
        if is_food_logging_request query
        then (case handle_food_logging_request w cfg st calls query user_id user_prefs of
                (answer, st', calls') \<Rightarrow> (Inr answer, st', calls'))
        else
          (case detect_restaurant_query query of
             Some location \<Rightarrow>
               if location \<noteq> []
               then (case search_restaurants w cfg st calls location [] user_id of
                       (search_results, calls1) \<Rightarrow>
                         (case format_restaurant_results w cfg calls1 search_results location
                                 user_prefs of
                            (answer, calls2) \<Rightarrow> (Inr answer, st, calls2)))
               else route_to_advisers w cfg st calls query user_prefs
           | None \<Rightarrow> route_to_advisers w cfg st calls query user_prefs))"

text \<open>
  \<^verbatim>\<open>process_nutrition_query\<close>: the \<^verbatim>\<open>try\<close> block under its handler. \<^verbatim>\<open>except Exception\<close>
  (lines 898 to 900) turns whatever the block raises into a message and returns it.
  The result is kept in the type of a call that may raise, \<^const>\<open>Inl\<close> being an
  exception that leaves the method.
\<close>

definition process_nutrition_query ::
  "world \<Rightarrow> config \<Rightarrow> store \<Rightarrow> http_call list \<Rightarrow> string \<Rightarrow> string \<Rightarrow>
     string raising \<times> store \<times> http_call list" where
  "process_nutrition_query w cfg st calls query user_id =
     (case query_try_block w cfg st calls query user_id of
        (Inl e, st', calls') \<Rightarrow> (Inr (msg_query_error e), st', calls')
      | (Inr answer, st', calls') \<Rightarrow> (Inr answer, st', calls'))"

section \<open>Example inputs\<close>

text \<open>A search result with a URL and a title.\<close>

definition ex_result :: "string \<Rightarrow> string \<Rightarrow> search_result" where
  "ex_result u t = \<lparr>result_url = Some u, result_title = Some t, result_text = None\<rparr>"

text \<open>Results gathered from several queries: the first comes back a second time
  as it is and a third time under another title, and one result has no URL.\<close>

definition repeated_results :: "search_result list" where
  "repeated_results =
     [ex_result ''a'' ''1'', ex_result ''b'' ''2'', ex_result ''a'' ''1'',
      \<lparr>result_url = None, result_title = Some ''4'', result_text = None\<rparr>,
      ex_result ''a'' ''3'']"

text \<open>A world whose search answers every query with four results and whose chat
  endpoint refuses every request; a configuration with the search credential only.\<close>

definition four_results :: "search_result list" where
  "four_results =
     [ex_result ''u1'' ''t1'', ex_result ''u2'' ''t2'', ex_result ''u3'' ''t3'', ex_result ''u4'' ''t4'']"

definition world_of_fours :: world where
  "world_of_fours =
     \<lparr>mistral_api = (\<lambda>calls k task. MistralResponse 401 (Inl ''choices'') ''Unauthorized'' NoErrorKey),
      exa_api = (\<lambda>calls k q. ExaResponse 200 (Inr four_results) []),
      json_food = (\<lambda>s. NotJson),
      py_repr = (\<lambda>v. ''?'')\<rparr>"

definition search_only_config :: config where
  "search_only_config = \<lparr>mistral_api_key = [], exa_api_key = ''exa-key''\<rparr>"

text \<open>A world whose search finds nothing and whose chat endpoint refuses every
  request; a configuration without credentials and one with both.\<close>

definition quiet_world :: world where
  "quiet_world =
     \<lparr>mistral_api = (\<lambda>calls k task. MistralResponse 401 (Inl ''choices'') ''Unauthorized'' NoErrorKey),
      exa_api = (\<lambda>calls k q. ExaResponse 200 (Inr []) []),
      json_food = (\<lambda>s. NotJson),
      py_repr = (\<lambda>v. ''?'')\<rparr>"

definition no_key_config :: config where
  "no_key_config = \<lparr>mistral_api_key = [], exa_api_key = []\<rparr>"

definition both_keys_config :: config where
  "both_keys_config = \<lparr>mistral_api_key = ''mistral-key'', exa_api_key = ''exa-key''\<rparr>"

text \<open>A database with its two tables empty.\<close>

definition empty_store :: store where
  "empty_store =
     \<lparr>user_preferences = [], nutrition_logs = [], preferences_seq = 0, logs_seq = 0,
      current_timestamp = ''2025-01-01 00:00:00'', db_fault = None\<rparr>"

text \<open>The preferences of a user: two restrictions, no allergy, one cuisine, two goals
  and some of the numbers.\<close>

definition ex_preferences :: preferences where
  "ex_preferences =
     \<lparr>dietary_restrictions = Some [''Vegan'', ''Gluten-Free''],
      food_allergies = Some [],
      cuisine_preferences = Some [''Indian''],
      health_goals = Some [(''weight_loss'', True), (''heart_health'', False)],
      weight_goal = Some 65,
      current_weight = Some (145 / 2),
      activity_level = Some ''moderate'',
      age = Some 30,
      gender = None,
      height_cm = Some 170,
      daily_calorie_target = Some 2000,
      protein_target = None,
      carb_target = None,
      fat_target = None\<rparr>"

section \<open>The JSON round trip\<close>

lemma hex_value_digits: "list_all (\<lambda>k. hex_value (hex_digits ! k) = Some k) [0..<16]"
  by code_simp

lemma hex_value_digit: "k < 16 \<Longrightarrow> hex_value (hex_digits ! k) = Some k"
  using hex_value_digits by (simp add: list_all_iff)

lemma of_char_lt_256: "(of_char c :: nat) < 256"
  by (rule nat_of_char_less_256)

lemma hex4_escape:
  "hex4 CHR ''0'' CHR ''0'' (hex_digits ! ((of_char c :: nat) div 16)) (hex_digits ! ((of_char c :: nat) mod 16))
     = Some (of_char c)"
proof -
  have d: "(of_char c :: nat) div 16 < 16" using of_char_lt_256 [of c] by arith
  have m: "(of_char c :: nat) mod 16 < 16" by simp
  have z: "hex_value CHR ''0'' = Some 0" by (simp add: hex_value_def)
  show ?thesis
    by (simp add: hex4_def z hex_value_digit [OF d] hex_value_digit [OF m])
qed

lemma parse_str_escape:
  "parse_str acc (json_escape c @ s) = parse_str (acc @ [c]) s"
proof -
  consider (q) "c = dquote" | (b) "c = backslash" | (n) "c = CHR 0x0A" | (r) "c = CHR 0x0D"
    | (t) "c = CHR 0x09" | (bs) "c = CHR 0x08" | (ff) "c = CHR 0x0C"
    | (p) "c \<notin> {dquote, backslash, CHR 0x0A, CHR 0x0D, CHR 0x09, CHR 0x08, CHR 0x0C}" "printable c"
    | (u) "c \<notin> {dquote, backslash, CHR 0x0A, CHR 0x0D, CHR 0x09, CHR 0x08, CHR 0x0C}" "\<not> printable c"
    by blast
  then show ?thesis
  proof cases
    case p
    then show ?thesis by (simp add: json_escape_def printable_def)
  next
    case u
    then show ?thesis
      by (simp add: json_escape_def hex4_escape of_char_lt_256 dquote_def backslash_def)
  qed (simp_all add: json_escape_def unescape_def dquote_def backslash_def)
qed

lemma parse_str_escaped:
  "parse_str acc (concat (map json_escape s) @ dquote # rest) = Some (acc @ s, rest)"
  by (induction s arbitrary: acc) (simp_all add: parse_str_escape)

lemma parse_str_json_string:
  "parse_str [] (tl (json_string s) @ rest) = Some (s, rest)"
  using parse_str_escaped [of "[]" s rest] by (simp add: json_string_def)

declare parse_items.simps [simp del] parse_members.simps [simp del]

lemma skip_ws_space [simp]: "skip_ws (CHR '' '' # s) = skip_ws s"
  by (simp add: skip_ws_def json_ws_def)

lemma skip_ws_dquote [simp]: "skip_ws (dquote # s) = dquote # s"
  by (simp add: skip_ws_def json_ws_def dquote_def)

lemma skip_ws_punct [simp]:
  "skip_ws (CHR '','' # s) = CHR '','' # s"
  "skip_ws (CHR '']'' # s) = CHR '']'' # s"
  "skip_ws (CHR ''}'' # s) = CHR ''}'' # s"
  "skip_ws (CHR '':'' # s) = CHR '':'' # s"
  "skip_ws (CHR ''['' # s) = CHR ''['' # s"
  "skip_ws (CHR ''{'' # s) = CHR ''{'' # s"
  "skip_ws (CHR ''t'' # s) = CHR ''t'' # s"
  "skip_ws (CHR ''f'' # s) = CHR ''f'' # s"
  "skip_ws [] = []"
  by (simp_all add: skip_ws_def json_ws_def)

lemma parse_items_string:
  "parse_items acc (json_string x @ rest) =
     (case skip_ws rest of
        [] \<Rightarrow> None
      | d # r \<Rightarrow>
          if d = CHR '','' then parse_items (acc @ [x]) r
          else if d = CHR '']'' \<and> skip_ws r = [] then Some (acc @ [x])
          else None)"
proof -
  have "json_string x @ rest = dquote # concat (map json_escape x) @ dquote # rest"
    by (simp add: json_string_def)
  then show ?thesis
    by (simp add: parse_items.simps [of acc "dquote # concat (map json_escape x) @ dquote # rest"]
          parse_str_escaped)
qed

lemma parse_items_space: "parse_items acc (CHR '' '' # s) = parse_items acc s"
  by (simp add: parse_items.simps [of acc "CHR '' '' # s"] parse_items.simps [of acc s])

lemma parse_items_dumps:
  "parse_items acc (str_join '', '' (map json_string (x # xs)) @ '']'') = Some (acc @ x # xs)"
proof (induction xs arbitrary: acc x)
  case Nil
  show ?case by (simp add: parse_items_string)
next
  case (Cons y ys)
  show ?case
    using Cons.IH [of "acc @ [x]" y]
    by (simp add: parse_items_string parse_items_space)
qed

lemma str_join_json_string_Cons:
  "\<exists>rest. str_join sep (map json_string (x # xs)) @ t = json_string x @ rest"
  by (cases xs) simp_all

lemma dquote_neq [simp]:
  "dquote \<noteq> CHR '']''" "dquote \<noteq> CHR ''}''" "dquote \<noteq> CHR ''[''" "dquote \<noteq> CHR ''{''"
  "dquote \<noteq> CHR '',''" "dquote \<noteq> CHR '':''" "dquote \<noteq> backslash"
  by (simp_all add: dquote_def backslash_def)

lemma json_loads_list_string:
  "json_loads (CHR ''['' # json_string x @ rest) =
     map_option PStrs (parse_items [] (json_string x @ rest))"
  by (simp add: json_loads_def json_string_def)

lemma json_loads_dumps_strs: "json_loads (dumps_strs xs) = Some (PStrs xs)"
proof (cases xs)
  case Nil
  then show ?thesis by (simp add: json_loads_def dumps_strs_def)
next
  case (Cons x ys)
  obtain rest where r: "str_join '', '' (map json_string (x # ys)) @ '']'' = json_string x @ rest"
    using str_join_json_string_Cons by blast
  have "json_loads (dumps_strs xs) = json_loads (CHR ''['' # json_string x @ rest)"
    using Cons r by (simp add: dumps_strs_def)
  also have "\<dots> = map_option PStrs (parse_items [] (json_string x @ rest))"
    by (rule json_loads_list_string)
  also have "\<dots> = Some (PStrs xs)"
    using parse_items_dumps [of "[]" x ys] Cons r by simp
  finally show ?thesis .
qed

lemma parse_bool_true [simp]: "parse_bool (''true'' @ s) = Some (True, s)"
  by (simp add: parse_bool_def)

lemma parse_bool_false [simp]: "parse_bool (''false'' @ s) = Some (False, s)"
  by (simp add: parse_bool_def)

lemma parse_members_member:
  "parse_members acc (json_member (k, b) @ rest) =
     (case skip_ws rest of
        [] \<Rightarrow> None
      | e # r \<Rightarrow>
          if e = CHR '','' then parse_members (AList.update k b acc) r
          else if e = CHR ''}'' \<and> skip_ws r = [] then Some (AList.update k b acc)
          else None)"
proof -
  let ?lit = "(if b then ''true'' else ''false'') @ rest"
  have e: "json_member (k, b) @ rest =
             dquote # concat (map json_escape k) @ dquote # CHR '':'' # CHR '' '' # ?lit"
    by (simp add: json_member_def json_string_def)
  have p: "parse_bool (skip_ws (CHR '' '' # ?lit)) = Some (b, rest)"
    by (cases b) (simp_all add: parse_bool_def)
  show ?thesis
    unfolding e
    by (subst parse_members.simps) (simp add: parse_str_escaped p del: skip_ws_space)
qed

lemma parse_members_space: "parse_members acc (CHR '' '' # s) = parse_members acc s"
  by (simp add: parse_members.simps [of acc "CHR '' '' # s"] parse_members.simps [of acc s])

lemma update_fresh: "k \<notin> fst ` set al \<Longrightarrow> AList.update k v al = al @ [(k, v)]"
  by (induction al) auto

lemma parse_members_dumps:
  "distinct (map fst (acc @ kv # kvs)) \<Longrightarrow>
   parse_members acc (str_join '', '' (map json_member (kv # kvs)) @ ''}'') = Some (acc @ kv # kvs)"
proof (induction kvs arbitrary: acc kv)
  case Nil
  obtain k b where kv: "kv = (k, b)" by (cases kv)
  have "k \<notin> fst ` set acc" using Nil kv by auto
  then show ?case by (simp add: kv parse_members_member update_fresh)
next
  case (Cons y ys)
  obtain k b where kv: "kv = (k, b)" by (cases kv)
  have fresh: "k \<notin> fst ` set acc" using Cons.prems kv by auto
  have d: "distinct (map fst ((acc @ [kv]) @ y # ys))" using Cons.prems by simp
  show ?case
    using Cons.IH [OF d]
    by (simp add: kv parse_members_member parse_members_space update_fresh [OF fresh])
qed

lemma json_loads_dict_member:
  "json_loads (CHR ''{'' # json_member kv @ rest) =
     map_option PGoals (parse_members [] (json_member kv @ rest))"
  by (simp add: json_loads_def json_member_def json_string_def)

lemma str_join_json_member_Cons:
  "\<exists>rest. str_join sep (map json_member (x # xs)) @ t = json_member x @ rest"
  by (cases xs) simp_all

lemma json_loads_dumps_goals:
  "distinct (map fst g) \<Longrightarrow> json_loads (dumps_goals g) = Some (PGoals g)"
proof (cases g)
  case Nil
  then show ?thesis by (simp add: json_loads_def dumps_goals_def)
next
  case (Cons kv kvs)
  assume dist: "distinct (map fst g)"
  obtain rest where r: "str_join '', '' (map json_member (kv # kvs)) @ ''}'' = json_member kv @ rest"
    using str_join_json_member_Cons by blast
  have "json_loads (dumps_goals g) = json_loads (CHR ''{'' # json_member kv @ rest)"
    using Cons r by (simp add: dumps_goals_def)
  also have "\<dots> = map_option PGoals (parse_members [] (json_member kv @ rest))"
    by (rule json_loads_dict_member)
  also have "\<dots> = Some (PGoals g)"
    using parse_members_dumps [of "[]" kv kvs] Cons r dist by simp
  finally show ?thesis .
qed

section \<open>Query composer: the fallback is deterministic\<close>

lemma fallback_pune_vegan:
  "generate_fallback_queries ''Pune'' [(''dietary_restrictions'', PStrs [''Vegan''])] [] =
     Inr [''best vegan restaurants in Pune'', ''good restaurants Pune reviews'',
          ''Pune restaurants vegan zomato swiggy'']"
  by code_simp

lemma smart_queries_without_key:
  "generate_smart_search_queries w (cfg\<lparr>mistral_api_key := []\<rparr>) calls location user_prefs cuisine =
     (generate_fallback_queries location user_prefs cuisine, calls)"
  by (simp add: generate_smart_search_queries_def)

text \<open>
  C8. With the text-generation credential absent, the composer called with location
  \<^verbatim>\<open>"Pune"\<close>, preferences \<^verbatim>\<open>{dietary_restrictions: ["Vegan"]}\<close> and the empty cuisine
  returns the same three query strings whatever the world and the calls issued before:
  \<^verbatim>\<open>best vegan restaurants in Pune\<close>, \<^verbatim>\<open>good restaurants Pune reviews\<close> and
  \<^verbatim>\<open>Pune restaurants vegan zomato swiggy\<close>, the three instances of the fallback
  template; it issues no call. The fallback composer itself returns the same list.
\<close>

theorem C8_fallback_composer_deterministic:
  "generate_smart_search_queries w (cfg\<lparr>mistral_api_key := []\<rparr>) calls ''Pune''
       [(''dietary_restrictions'', PStrs [''Vegan''])] [] =
     (Inr [''best vegan restaurants in Pune'', ''good restaurants Pune reviews'',
           ''Pune restaurants vegan zomato swiggy''], calls)
   \<and> generate_fallback_queries ''Pune'' [(''dietary_restrictions'', PStrs [''Vegan''])] [] =
     Inr [''best vegan restaurants in Pune'', ''good restaurants Pune reviews'',
          ''Pune restaurants vegan zomato swiggy'']"
  by (simp only: smart_queries_without_key fallback_pune_vegan simp_thms)

section \<open>Search aggregator: the post-pass\<close>

lemma remove_duplicates_acc:
  "remove_duplicates rs seen uniq = uniq @ remove_duplicates rs seen []"
proof (induction rs arbitrary: seen uniq)
  case Nil
  show ?case by simp
next
  case (Cons r rs)
  show ?case
  proof (cases "get_url r \<noteq> [] \<and> get_url r \<notin> seen")
    case True
    have "remove_duplicates (r # rs) seen uniq
            = remove_duplicates rs (insert (get_url r) seen) (uniq @ [r])"
      using True by simp
    also have "\<dots> = (uniq @ [r]) @ remove_duplicates rs (insert (get_url r) seen) []"
      by (rule Cons.IH)
    also have "\<dots> = uniq @ remove_duplicates rs (insert (get_url r) seen) [r]"
      using Cons.IH [of "insert (get_url r) seen" "[r]"] by simp
    also have "\<dots> = uniq @ remove_duplicates (r # rs) seen []"
      using True by simp
    finally show ?thesis .
  next
    case False
    then show ?thesis using Cons.IH [of seen uniq] by auto
  qed
qed

lemma remove_duplicates_Cons:
  "remove_duplicates (r # rs) seen [] =
     (if get_url r \<noteq> [] \<and> get_url r \<notin> seen
      then r # remove_duplicates rs (insert (get_url r) seen) []
      else remove_duplicates rs seen [])"
  using remove_duplicates_acc [of rs "insert (get_url r) seen" "[r]"] by simp

lemma remove_duplicates_urls:
  "set (map get_url (remove_duplicates rs seen [])) = set (map get_url rs) - {[]} - seen"
proof (induction rs arbitrary: seen)
  case Nil
  show ?case by simp
next
  case (Cons r rs)
  show ?case
    unfolding remove_duplicates_Cons using Cons.IH by auto
qed

lemma remove_duplicates_distinct:
  "distinct (map get_url (remove_duplicates rs seen []))"
proof (induction rs arbitrary: seen)
  case Nil
  show ?case by simp
next
  case (Cons r rs)
  have "get_url r \<notin> set (map get_url (remove_duplicates rs (insert (get_url r) seen) []))"
    unfolding remove_duplicates_urls by simp
  then show ?case
    unfolding remove_duplicates_Cons using Cons.IH by simp
qed

lemma remove_duplicates_subseq: "subseq (remove_duplicates rs seen []) rs"
proof (induction rs arbitrary: seen)
  case Nil
  show ?case by simp
next
  case (Cons r rs)
  show ?case
    unfolding remove_duplicates_Cons using Cons.IH by auto
qed

lemma remove_duplicates_first:
  "r \<in> set (remove_duplicates rs seen []) \<Longrightarrow> find (\<lambda>x. get_url x = get_url r) rs = Some r"
proof (induction rs arbitrary: seen)
  case Nil
  then show ?case by simp
next
  case (Cons r0 rs)
  show ?case
  proof (cases "get_url r0 \<noteq> [] \<and> get_url r0 \<notin> seen")
    case True
    then have m: "r = r0 \<or> r \<in> set (remove_duplicates rs (insert (get_url r0) seen) [])"
      using Cons.prems unfolding remove_duplicates_Cons by (auto split: if_splits)
    show ?thesis
    proof (cases "r = r0")
      case True
      then show ?thesis by simp
    next
      case False
      with m have i: "r \<in> set (remove_duplicates rs (insert (get_url r0) seen) [])" by simp
      then have "get_url r \<in> set (map get_url (remove_duplicates rs (insert (get_url r0) seen) []))"
        by simp
      then have "get_url r \<noteq> get_url r0" unfolding remove_duplicates_urls by auto
      then show ?thesis using Cons.IH [OF i] by simp
    qed
  next
    case False
    then have i: "r \<in> set (remove_duplicates rs seen [])"
      using Cons.prems unfolding remove_duplicates_Cons by (auto split: if_splits)
    then have "get_url r \<in> set (map get_url (remove_duplicates rs seen []))" by simp
    then have "get_url r \<noteq> [] \<and> get_url r \<notin> seen" unfolding remove_duplicates_urls by auto
    with False have "get_url r \<noteq> get_url r0" by auto
    then show ?thesis using Cons.IH [OF i] by simp
  qed
qed

lemma remove_duplicates_positions:
  "remove_duplicates rs seen [] = map ((!) rs) (filter (first_seen_at rs seen) [0..<length rs])"
proof (induction rs arbitrary: seen)
  case Nil
  show ?case by simp
next
  case (Cons r rs)
  have upt: "[0..<length (r # rs)] = 0 # map Suc [0..<length rs]"
    by (simp add: upt_conv_Cons map_Suc_upt del: upt_Suc)
  have nth: "map ((!) (r # rs)) (map Suc is) = map ((!) rs) is" for "is"
    by simp
  have filt: "filter P (map Suc is) = map Suc (filter (\<lambda>i. P (Suc i)) is)" for P "is"
    by (simp add: filter_map comp_def)
  have zero: "first_seen_at (r # rs) seen 0 \<longleftrightarrow> get_url r \<noteq> [] \<and> get_url r \<notin> seen"
    by (simp add: first_seen_at_def)
  show ?case
  proof (cases "get_url r \<noteq> [] \<and> get_url r \<notin> seen")
    case True
    have s: "first_seen_at (r # rs) seen (Suc i) = first_seen_at rs (insert (get_url r) seen) i" for i
      by (auto simp: first_seen_at_def)
    have z: "first_seen_at (r # rs) seen 0" using True by (simp add: zero)
    have "remove_duplicates (r # rs) seen [] = r # remove_duplicates rs (insert (get_url r) seen) []"
      by (simp only: remove_duplicates_Cons if_P [OF True])
    also have "\<dots> = r # map ((!) rs) (filter (first_seen_at rs (insert (get_url r) seen)) [0..<length rs])"
      by (simp only: Cons.IH)
    also have "\<dots> = map ((!) (r # rs)) (filter (first_seen_at (r # rs) seen) [0..<length (r # rs)])"
      unfolding upt by (simp add: z filt s nth del: upt_Suc)
    finally show ?thesis .
  next
    case False
    have s: "first_seen_at (r # rs) seen (Suc i) = first_seen_at rs seen i" for i
      using False by (auto simp: first_seen_at_def)
    have z: "\<not> first_seen_at (r # rs) seen 0" using False by (simp add: zero)
    have "remove_duplicates (r # rs) seen [] = remove_duplicates rs seen []"
      by (simp only: remove_duplicates_Cons if_not_P [OF False])
    also have "\<dots> = map ((!) rs) (filter (first_seen_at rs seen) [0..<length rs])"
      by (simp only: Cons.IH)
    also have "\<dots> = map ((!) (r # rs)) (filter (first_seen_at (r # rs) seen) [0..<length (r # rs)])"
      unfolding upt by (simp add: z filt s nth del: upt_Suc)
    finally show ?thesis .
  qed
qed

lemma post_pass_results:
  "map_of (post_pass n s all_results) ''results'' =
     Some (Results (take 8 (remove_duplicates all_results {} [])))"
  by (simp add: post_pass_def Let_def)

lemma post_pass_total_found:
  "map_of (post_pass n s all_results) ''total_found'' =
     Some (Count (length (remove_duplicates all_results {} [])))"
  by (simp add: post_pass_def Let_def)

lemma post_pass_no_error: "map_of (post_pass n s all_results) ''error'' = None"
  by (simp add: post_pass_def Let_def)

text \<open>
  C2. For every list of accumulated results, the list the post-pass keeps consists of
  the results at the positions where a non-empty URL occurs for the first time, in the
  order of these positions. So it has pairwise different URLs, holds exactly the
  non-empty URLs of the accumulated list, is a subsequence of the accumulated list, and
  each result kept is the first of the accumulated list with its URL. The
  \<^verbatim>\<open>results\<close> field is the first eight entries of that list and \<^verbatim>\<open>total_found\<close>
  its length before the truncation.
\<close>

theorem C2_dedup_first_seen:
  "remove_duplicates all_results {} [] =
     map ((!) all_results)
       (filter (\<lambda>i. get_url (all_results ! i) \<noteq> [] \<and>
                    get_url (all_results ! i) \<notin> get_url ` set (take i all_results))
          [0..<length all_results])
   \<and> distinct (map get_url (remove_duplicates all_results {} []))
   \<and> set (map get_url (remove_duplicates all_results {} [])) = set (map get_url all_results) - {[]}
   \<and> subseq (remove_duplicates all_results {} []) all_results
   \<and> (\<forall>r \<in> set (remove_duplicates all_results {} []).
         find (\<lambda>x. get_url x = get_url r) all_results = Some r)
   \<and> map_of (post_pass n s all_results) ''results'' =
         Some (Results (take 8 (remove_duplicates all_results {} [])))
   \<and> map_of (post_pass n s all_results) ''total_found'' =
         Some (Count (length (remove_duplicates all_results {} [])))"
proof (intro conjI ballI)
  show "remove_duplicates all_results {} [] =
     map ((!) all_results)
       (filter (\<lambda>i. get_url (all_results ! i) \<noteq> [] \<and>
                    get_url (all_results ! i) \<notin> get_url ` set (take i all_results))
          [0..<length all_results])"
    using remove_duplicates_positions [of all_results "{}"]
    by (simp add: first_seen_at_def [abs_def])
  show "distinct (map get_url (remove_duplicates all_results {} []))"
    by (rule remove_duplicates_distinct)
  show "set (map get_url (remove_duplicates all_results {} [])) = set (map get_url all_results) - {[]}"
    using remove_duplicates_urls [of all_results "{}"] by simp
  show "subseq (remove_duplicates all_results {} []) all_results"
    by (rule remove_duplicates_subseq)
  show "find (\<lambda>x. get_url x = get_url r) all_results = Some r"
    if "r \<in> set (remove_duplicates all_results {} [])" for r
    using that by (rule remove_duplicates_first)
  show "map_of (post_pass n s all_results) ''results'' =
         Some (Results (take 8 (remove_duplicates all_results {} [])))"
    by (rule post_pass_results)
  show "map_of (post_pass n s all_results) ''total_found'' =
         Some (Count (length (remove_duplicates all_results {} [])))"
    by (rule post_pass_total_found)
qed

lemma repeated_positions:
  "filter (\<lambda>i. get_url (repeated_results ! i) \<noteq> [] \<and>
                get_url (repeated_results ! i) \<notin> get_url ` set (take i repeated_results))
     [0..<length repeated_results] = [0, 1]"
  by code_simp

lemma repeated_dedup:
  "remove_duplicates repeated_results {} [] = [ex_result ''a'' ''1'', ex_result ''b'' ''2'']"
  by (simp add: repeated_results_def ex_result_def get_url_def)

theorem C2_witness:
  "remove_duplicates repeated_results {} [] = map ((!) repeated_results) [0, 1]
   \<and> remove_duplicates repeated_results {} [] = [ex_result ''a'' ''1'', ex_result ''b'' ''2'']
   \<and> find (\<lambda>x. get_url x = get_url (ex_result ''a'' ''1'')) repeated_results
         = Some (ex_result ''a'' ''1'')
   \<and> map_of (post_pass 3 3 repeated_results) ''results''
         = Some (Results [ex_result ''a'' ''1'', ex_result ''b'' ''2''])
   \<and> map_of (post_pass 3 3 repeated_results) ''total_found'' = Some (Count 2)"
proof -
  note t = C2_dedup_first_seen [of repeated_results 3 3]
  have p: "remove_duplicates repeated_results {} [] = map ((!) repeated_results) [0, 1]"
    using t by (simp only: repeated_positions)
  note u = t [unfolded repeated_dedup]
  have m: "ex_result ''a'' ''1'' \<in> set [ex_result ''a'' ''1'', ex_result ''b'' ''2'']" by simp
  have f: "find (\<lambda>x. get_url x = get_url (ex_result ''a'' ''1'')) repeated_results
             = Some (ex_result ''a'' ''1'')"
    using u m by blast
  have r: "map_of (post_pass 3 3 repeated_results) ''results''
             = Some (Results [ex_result ''a'' ''1'', ex_result ''b'' ''2''])"
    using u by simp
  have c: "map_of (post_pass 3 3 repeated_results) ''total_found'' = Some (Count 2)"
    using u by simp
  show ?thesis using p repeated_dedup f r c by blast
qed

lemma get_url_empty_iff: "get_url r = [] \<longleftrightarrow> (result_url r = None \<or> result_url r = Some [])"
  by (cases "result_url r") (simp_all add: get_url_def)

lemma remove_duplicates_nonempty_url:
  "r \<in> set (remove_duplicates rs seen []) \<Longrightarrow> get_url r \<noteq> []"
proof -
  assume "r \<in> set (remove_duplicates rs seen [])"
  then have "get_url r \<in> set (map get_url (remove_duplicates rs seen []))" by simp
  then show ?thesis unfolding remove_duplicates_urls by simp
qed

lemma results_of_post_pass:
  "results_of (post_pass n s all_results) = take 8 (remove_duplicates all_results {} [])"
  by (simp add: results_of_def post_pass_results)

text \<open>
  C10. A result whose \<^verbatim>\<open>url\<close> is missing or the empty string is in no list the
  post-pass keeps: it is not among the unique results, so it is not counted by
  \<^verbatim>\<open>total_found\<close>, and not among the returned \<^verbatim>\<open>results\<close>. When it is the only
  result, the unique list is empty, \<^verbatim>\<open>results\<close> is the empty list and
  \<^verbatim>\<open>total_found\<close> is 0.
\<close>

theorem C10_empty_url_dropped:
  assumes "result_url r = None \<or> result_url r = Some []"
  shows "r \<notin> set (remove_duplicates all_results {} [])
     \<and> r \<notin> set (results_of (post_pass n s all_results))
     \<and> map_of (post_pass n s all_results) ''total_found'' =
         Some (Count (length (remove_duplicates all_results {} [])))
     \<and> remove_duplicates [r] {} [] = []
     \<and> map_of (post_pass n s [r]) ''results'' = Some (Results [])
     \<and> map_of (post_pass n s [r]) ''total_found'' = Some (Count 0)"
proof -
  have e: "get_url r = []" using assms by (simp add: get_url_empty_iff)
  have 1: "r \<notin> set (remove_duplicates all_results {} [])"
    using e remove_duplicates_nonempty_url by blast
  have 2: "r \<notin> set (results_of (post_pass n s all_results))"
    using 1 unfolding results_of_post_pass by (auto dest: in_set_takeD)
  have 3: "remove_duplicates [r] {} [] = []" using e by simp
  have 4: "map_of (post_pass n s [r]) ''results'' = Some (Results [])"
    using 3 by (simp add: post_pass_def)
  have 5: "map_of (post_pass n s [r]) ''total_found'' = Some (Count 0)"
    using 3 by (simp add: post_pass_def)
  show ?thesis using 1 2 3 4 5 post_pass_total_found by blast
qed

theorem C10_witness:
  "\<lparr>result_url = None, result_title = Some ''x'', result_text = None\<rparr>
      \<notin> set (results_of (post_pass 3 3
            [ex_result ''a'' ''1'', \<lparr>result_url = None, result_title = Some ''x'', result_text = None\<rparr>]))
   \<and> map_of (post_pass 3 3 [ex_result ''a'' ''1'',
         \<lparr>result_url = None, result_title = Some ''x'', result_text = None\<rparr>]) ''total_found''
       = Some (Count 1)
   \<and> map_of (post_pass 3 3 [\<lparr>result_url = Some [], result_title = Some ''y'', result_text = None\<rparr>])
         ''total_found'' = Some (Count 0)"
proof -
  let ?r = "\<lparr>result_url = None, result_title = Some ''x'', result_text = None\<rparr>"
  let ?e = "\<lparr>result_url = Some [], result_title = Some ''y'', result_text = None\<rparr>"
  have h: "result_url ?r = None \<or> result_url ?r = Some []" by simp
  have h': "result_url ?e = None \<or> result_url ?e = Some []" by simp
  note a = C10_empty_url_dropped [OF h, of "[ex_result ''a'' ''1'', ?r]" 3 3]
  note b = C10_empty_url_dropped [OF h', of "[]" 3 3]
  have l: "length (remove_duplicates [ex_result ''a'' ''1'', ?r] {} []) = 1"
    by (simp add: ex_result_def get_url_def)
  show ?thesis using a b l by simp
qed

section \<open>Search aggregator: the query loop\<close>

lemma query_loop_quota:
  "length all_results < 10 \<Longrightarrow>
   10 \<le> length (fst (query_loop w cfg pre all_results s calls)) \<Longrightarrow>
   query_loop w cfg (pre @ post) all_results s calls = query_loop w cfg pre all_results s calls"
proof (induction pre arbitrary: all_results s calls)
  case Nil
  then show ?case by simp
next
  case (Cons q pre)
  let ?calls = "calls @ [ExaPost (exa_api_key cfg) q]"
  show ?case
  proof (cases "exa_api w calls (exa_api_key cfg) q")
    case (ExaRaises e)
    then show ?thesis using Cons by simp
  next
    case (ExaResponse status results body)
    show ?thesis
    proof (cases "status = 200")
      case False
      then show ?thesis using ExaResponse Cons by simp
    next
      case True
      show ?thesis
      proof (cases results)
        case (Inl e)
        then show ?thesis using True ExaResponse Cons by simp
      next
        case (Inr rs)
        show ?thesis
        proof (cases "10 \<le> length (all_results @ rs)")
          case True
          then show ?thesis using Inr \<open>status = 200\<close> ExaResponse by simp
        next
          case False
          then have l: "length (all_results @ rs) < 10" by simp
          have r: "query_loop w cfg (q # pre) all_results s calls =
                     query_loop w cfg pre (all_results @ rs) (s + 1) ?calls"
            using False Inr \<open>status = 200\<close> ExaResponse by simp
          have r': "query_loop w cfg ((q # pre) @ post) all_results s calls =
                     query_loop w cfg (pre @ post) (all_results @ rs) (s + 1) ?calls"
            using False Inr \<open>status = 200\<close> ExaResponse by simp
          have "10 \<le> length (fst (query_loop w cfg pre (all_results @ rs) (s + 1) ?calls))"
            using Cons.prems(2) r by simp
          from Cons.IH [OF l this] show ?thesis using r r' by simp
        qed
      qed
    qed
  qed
qed

lemma query_loop_go_on:
  "exa_api w calls (exa_api_key cfg) q = ExaResponse 200 (Inr rs) body \<Longrightarrow>
   length (all_results @ rs) < 10 \<Longrightarrow>
   query_loop w cfg (q # qs) all_results s calls =
     query_loop w cfg qs (all_results @ rs) (s + 1) (calls @ [ExaPost (exa_api_key cfg) q])"
  by simp

lemma query_loop_leave:
  "exa_api w calls (exa_api_key cfg) q = ExaResponse 200 (Inr rs) body \<Longrightarrow>
   10 \<le> length (all_results @ rs) \<Longrightarrow>
   query_loop w cfg (q # qs) all_results s calls =
     (all_results @ rs, s + 1, calls @ [ExaPost (exa_api_key cfg) q])"
  by simp

lemma query_loop_fours:
  assumes four: "\<forall>c q. \<exists>rs b. exa_api w c (exa_api_key cfg) q = ExaResponse 200 (Inr rs) b \<and> length rs = 4"
  shows "snd (snd (query_loop w cfg (q1 # q2 # q3 # rest) [] 0 calls)) =
           calls @ [ExaPost (exa_api_key cfg) q1, ExaPost (exa_api_key cfg) q2,
                    ExaPost (exa_api_key cfg) q3]"
proof -
  let ?k = "exa_api_key cfg"
  let ?c1 = "calls @ [ExaPost ?k q1]"
  let ?c2 = "?c1 @ [ExaPost ?k q2]"
  obtain rs1 b1 where 1: "exa_api w calls ?k q1 = ExaResponse 200 (Inr rs1) b1" "length rs1 = 4"
    using four by blast
  obtain rs2 b2 where 2: "exa_api w ?c1 ?k q2 = ExaResponse 200 (Inr rs2) b2" "length rs2 = 4"
    using four by blast
  obtain rs3 b3 where 3: "exa_api w ?c2 ?k q3 = ExaResponse 200 (Inr rs3) b3" "length rs3 = 4"
    using four by blast
  have "query_loop w cfg (q1 # q2 # q3 # rest) [] 0 calls =
          query_loop w cfg (q2 # q3 # rest) ([] @ rs1) (0 + 1) ?c1"
    using 1 by (intro query_loop_go_on) simp_all
  also have "\<dots> = query_loop w cfg (q3 # rest) (([] @ rs1) @ rs2) (0 + 1 + 1) ?c2"
    using 1 2 by (intro query_loop_go_on) simp_all
  also have "\<dots> = ((([] @ rs1) @ rs2) @ rs3, 0 + 1 + 1 + 1, ?c2 @ [ExaPost ?k q3])"
    using 1 2 3 by (intro query_loop_leave) simp_all
  finally show ?thesis by simp
qed

lemma query_loop_below:
  "length (fst (query_loop w cfg pre all_results s calls)) < 10 \<Longrightarrow>
   query_loop w cfg (pre @ post) all_results s calls =
     (case query_loop w cfg pre all_results s calls of
        (gathered, s', calls') \<Rightarrow> query_loop w cfg post gathered s' calls')"
proof (induction pre arbitrary: all_results s calls)
  case Nil
  then show ?case by simp
next
  case (Cons q pre)
  let ?calls = "calls @ [ExaPost (exa_api_key cfg) q]"
  show ?case
  proof (cases "exa_api w calls (exa_api_key cfg) q")
    case (ExaRaises e)
    then show ?thesis using Cons by simp
  next
    case (ExaResponse status results body)
    show ?thesis
    proof (cases "status = 200")
      case False
      then show ?thesis using ExaResponse Cons by simp
    next
      case True
      show ?thesis
      proof (cases results)
        case (Inl e)
        then show ?thesis using True ExaResponse Cons by simp
      next
        case (Inr rs)
        show ?thesis
        proof (cases "10 \<le> length (all_results @ rs)")
          case True
          then have "query_loop w cfg (q # pre) all_results s calls =
                       (all_results @ rs, s + 1, ?calls)"
            using Inr \<open>status = 200\<close> ExaResponse by simp
          then show ?thesis using True Cons.prems by simp
        next
          case False
          have r: "query_loop w cfg (q # pre) all_results s calls =
                     query_loop w cfg pre (all_results @ rs) (s + 1) ?calls"
            using False Inr \<open>status = 200\<close> ExaResponse by simp
          have r': "query_loop w cfg ((q # pre) @ post) all_results s calls =
                     query_loop w cfg (pre @ post) (all_results @ rs) (s + 1) ?calls"
            using False Inr \<open>status = 200\<close> ExaResponse by simp
          have "length (fst (query_loop w cfg pre (all_results @ rs) (s + 1) ?calls)) < 10"
            using Cons.prems r by simp
          from Cons.IH [OF this] show ?thesis using r r' by simp
        qed
      qed
    qed
  qed
qed

text \<open>
  C3. Once the results gathered by the query loop reach ten, no further query is issued:
  when the loop over the queries \<^verbatim>\<open>pre\<close> ends with ten results or more, the loop over
  \<^verbatim>\<open>pre\<close> followed by any further queries does the same, issues the same requests and
  returns the same results. Below ten the loop does go on: when the loop over \<^verbatim>\<open>pre\<close>
  ends with fewer than ten results, the loop over \<^verbatim>\<open>pre\<close> followed by \<^verbatim>\<open>post\<close> continues
  with the queries of \<^verbatim>\<open>post\<close> from the state reached. In particular, when every request
  is answered with status 200 and four results, the requests issued for three or more
  queries are exactly those for the first three.
\<close>

theorem C3_quota_stops_search:
  "(10 \<le> length (fst (query_loop w cfg pre [] 0 calls)) \<longrightarrow>
      query_loop w cfg (pre @ post) [] 0 calls = query_loop w cfg pre [] 0 calls)
   \<and> (length (fst (query_loop w cfg pre [] 0 calls)) < 10 \<longrightarrow>
      query_loop w cfg (pre @ post) [] 0 calls =
        (case query_loop w cfg pre [] 0 calls of
           (gathered, s', calls') \<Rightarrow> query_loop w cfg post gathered s' calls'))
   \<and> ((\<forall>c q. \<exists>rs b. exa_api w c (exa_api_key cfg) q = ExaResponse 200 (Inr rs) b \<and> length rs = 4) \<longrightarrow>
        3 \<le> length qs \<longrightarrow>
        snd (snd (query_loop w cfg qs [] 0 calls)) =
          calls @ map (ExaPost (exa_api_key cfg)) (take 3 qs))"
proof (intro conjI impI)
  assume "10 \<le> length (fst (query_loop w cfg pre [] 0 calls))"
  then show "query_loop w cfg (pre @ post) [] 0 calls = query_loop w cfg pre [] 0 calls"
    by (intro query_loop_quota) simp_all
next
  assume "length (fst (query_loop w cfg pre [] 0 calls)) < 10"
  then show "query_loop w cfg (pre @ post) [] 0 calls =
        (case query_loop w cfg pre [] 0 calls of
           (gathered, s', calls') \<Rightarrow> query_loop w cfg post gathered s' calls')"
    by (rule query_loop_below)
next
  assume four: "\<forall>c q. \<exists>rs b. exa_api w c (exa_api_key cfg) q = ExaResponse 200 (Inr rs) b \<and> length rs = 4"
    and three: "3 \<le> length qs"
  from three obtain q1 q2 q3 rest where qs: "qs = q1 # q2 # q3 # rest"
    by (cases qs; cases "tl qs"; cases "tl (tl qs)") auto
  show "snd (snd (query_loop w cfg qs [] 0 calls)) =
          calls @ map (ExaPost (exa_api_key cfg)) (take 3 qs)"
    unfolding qs using query_loop_fours [OF four] by simp
qed

lemma fours_reply:
  "\<forall>c q. \<exists>rs b. exa_api world_of_fours c (exa_api_key search_only_config) q
                    = ExaResponse 200 (Inr rs) b \<and> length rs = 4"
  by (simp add: world_of_fours_def four_results_def)

lemma fours_two:
  "query_loop world_of_fours search_only_config [''q1'', ''q2''] [] 0 [] =
     (four_results @ four_results, 2, [ExaPost ''exa-key'' ''q1'', ExaPost ''exa-key'' ''q2''])"
  by (simp add: world_of_fours_def four_results_def search_only_config_def)

theorem C3_witness:
  "10 \<le> length (fst (query_loop world_of_fours search_only_config [''q1'', ''q2'', ''q3''] [] 0 []))
   \<and> query_loop world_of_fours search_only_config [''q1'', ''q2'', ''q3'', ''q4'', ''q5''] [] 0 [] =
       query_loop world_of_fours search_only_config [''q1'', ''q2'', ''q3''] [] 0 []
   \<and> length (fst (query_loop world_of_fours search_only_config [''q1'', ''q2''] [] 0 [])) < 10
   \<and> query_loop world_of_fours search_only_config [''q1'', ''q2'', ''q3'', ''q4'', ''q5''] [] 0 [] =
       query_loop world_of_fours search_only_config [''q3'', ''q4'', ''q5'']
         (four_results @ four_results) 2 [ExaPost ''exa-key'' ''q1'', ExaPost ''exa-key'' ''q2'']
   \<and> snd (snd (query_loop world_of_fours search_only_config [''q1'', ''q2'', ''q3'', ''q4'', ''q5''] [] 0 []))
       = [ExaPost ''exa-key'' ''q1'', ExaPost ''exa-key'' ''q2'', ExaPost ''exa-key'' ''q3'']"
proof -
  have ten: "10 \<le> length (fst (query_loop world_of_fours search_only_config [''q1'', ''q2'', ''q3''] [] 0 []))"
    by (simp add: world_of_fours_def four_results_def)
  have eight: "length (fst (query_loop world_of_fours search_only_config [''q1'', ''q2''] [] 0 [])) < 10"
    unfolding fours_two by (simp add: four_results_def)
  note t = C3_quota_stops_search
             [of world_of_fours search_only_config "[''q1'', ''q2'', ''q3'']" "[]"
                 "[''q4'', ''q5'']" "[''q1'', ''q2'', ''q3'', ''q4'', ''q5'']"]
  note u = C3_quota_stops_search
             [of world_of_fours search_only_config "[''q1'', ''q2'']" "[]"
                 "[''q3'', ''q4'', ''q5'']" "[]"]
  have a: "query_loop world_of_fours search_only_config [''q1'', ''q2'', ''q3'', ''q4'', ''q5''] [] 0 [] =
             query_loop world_of_fours search_only_config [''q1'', ''q2'', ''q3''] [] 0 []"
    using t ten by simp
  have b: "snd (snd (query_loop world_of_fours search_only_config
                       [''q1'', ''q2'', ''q3'', ''q4'', ''q5''] [] 0 []))
             = [ExaPost ''exa-key'' ''q1'', ExaPost ''exa-key'' ''q2'', ExaPost ''exa-key'' ''q3'']"
    using t fours_reply by (simp add: search_only_config_def)
  have "query_loop world_of_fours search_only_config ([''q1'', ''q2''] @ [''q3'', ''q4'', ''q5'']) [] 0 [] =
          (case query_loop world_of_fours search_only_config [''q1'', ''q2''] [] 0 [] of
             (gathered, s', calls') \<Rightarrow>
               query_loop world_of_fours search_only_config [''q3'', ''q4'', ''q5''] gathered s' calls')"
    using u eight by blast
  then have c: "query_loop world_of_fours search_only_config [''q1'', ''q2'', ''q3'', ''q4'', ''q5''] [] 0 [] =
       query_loop world_of_fours search_only_config [''q3'', ''q4'', ''q5'']
         (four_results @ four_results) 2 [ExaPost ''exa-key'' ''q1'', ExaPost ''exa-key'' ''q2'']"
    unfolding fours_two by simp
  show ?thesis using ten a eight c b by blast
qed

section \<open>Search aggregator: the two result shapes\<close>

lemma search_without_key:
  "exa_api_key cfg = [] \<Longrightarrow>
   search_restaurants w cfg st calls location cuisine user_id =
     ([(''error'', Message msg_exa_key_missing)], calls)"
  by (simp add: search_restaurants_def)

lemma search_with_key:
  assumes "exa_api_key cfg \<noteq> []"
    and "(if cuisine = [] \<and>
             truthy (dict_get (if user_id \<noteq> [] then get_user_preferences st user_id else [])
                       ''cuisine_preferences'')
          then first_item (dict_get (if user_id \<noteq> [] then get_user_preferences st user_id else [])
                             ''cuisine_preferences'')
          else Inr cuisine) = Inr cuisine'"
    and "generate_smart_search_queries w cfg calls location
           (if user_id \<noteq> [] then get_user_preferences st user_id else []) cuisine'
           = (Inr search_queries, calls1)"
    and "query_loop w cfg (take 6 search_queries) [] 0 calls1
           = (all_results, successful_queries, calls2)"
  shows "search_restaurants w cfg st calls location cuisine user_id =
           (post_pass (length search_queries) successful_queries all_results, calls2)"
  using assms unfolding search_restaurants_def Let_def by simp

lemma post_pass_empty:
  "remove_duplicates all_results {} [] = [] \<Longrightarrow>
   post_pass n s all_results =
     [(''results'', Results []), (''total_found'', Count 0),
      (''debug_info'', Message (msg_debug_empty (str_nat n) (str_nat s)))]"
  by (simp add: post_pass_def)

text \<open>
  C6. The value \<^verbatim>\<open>search_restaurants\<close> returns tells a search that could not run for
  want of the search credential from a search that ran and found no unique result, by
  the key \<^verbatim>\<open>error\<close>. Without the credential the value is the dictionary of the one key
  \<^verbatim>\<open>error\<close> with the fixed message, and no request is issued. With the credential,
  when the composer returns its queries and the results the query loop gathers hold no
  unique result, the value is the dictionary of \<^verbatim>\<open>results\<close> empty, \<^verbatim>\<open>total_found\<close> 0 and
  \<^verbatim>\<open>debug_info\<close> with the number of queries and of successful calls, and it has no
  key \<^verbatim>\<open>error\<close>.
\<close>

theorem C6_error_shape_distinct:
  "(exa_api_key cfg = [] \<longrightarrow>
      search_restaurants w cfg st calls location cuisine user_id =
        ([(''error'', Message msg_exa_key_missing)], calls)
      \<and> map_of (fst (search_restaurants w cfg st calls location cuisine user_id)) ''error''
          = Some (Message msg_exa_key_missing))
   \<and> (exa_api_key cfg \<noteq> [] \<longrightarrow>
       (if cuisine = [] \<and>
           truthy (dict_get (if user_id \<noteq> [] then get_user_preferences st user_id else [])
                     ''cuisine_preferences'')
        then first_item (dict_get (if user_id \<noteq> [] then get_user_preferences st user_id else [])
                           ''cuisine_preferences'')
        else Inr cuisine) = Inr cuisine' \<longrightarrow>
       generate_smart_search_queries w cfg calls location
         (if user_id \<noteq> [] then get_user_preferences st user_id else []) cuisine'
         = (Inr search_queries, calls1) \<longrightarrow>
       query_loop w cfg (take 6 search_queries) [] 0 calls1
         = (all_results, successful_queries, calls2) \<longrightarrow>
       remove_duplicates all_results {} [] = [] \<longrightarrow>
       search_restaurants w cfg st calls location cuisine user_id =
         ([(''results'', Results []), (''total_found'', Count 0),
           (''debug_info'',
            Message (msg_debug_empty (str_nat (length search_queries))
                       (str_nat successful_queries)))], calls2)
       \<and> map_of (fst (search_restaurants w cfg st calls location cuisine user_id)) ''error''
           = None)"
proof (intro conjI impI)
  assume k: "exa_api_key cfg = []"
  show "search_restaurants w cfg st calls location cuisine user_id =
          ([(''error'', Message msg_exa_key_missing)], calls)"
    using k by (rule search_without_key)
  then show "map_of (fst (search_restaurants w cfg st calls location cuisine user_id)) ''error''
               = Some (Message msg_exa_key_missing)"
    by simp
next
  assume a: "exa_api_key cfg \<noteq> []"
    and b: "(if cuisine = [] \<and>
                truthy (dict_get (if user_id \<noteq> [] then get_user_preferences st user_id else [])
                          ''cuisine_preferences'')
             then first_item (dict_get (if user_id \<noteq> [] then get_user_preferences st user_id else [])
                                ''cuisine_preferences'')
             else Inr cuisine) = Inr cuisine'"
    and c: "generate_smart_search_queries w cfg calls location
              (if user_id \<noteq> [] then get_user_preferences st user_id else []) cuisine'
              = (Inr search_queries, calls1)"
    and d: "query_loop w cfg (take 6 search_queries) [] 0 calls1
              = (all_results, successful_queries, calls2)"
    and e: "remove_duplicates all_results {} [] = []"
  have s: "search_restaurants w cfg st calls location cuisine user_id =
             (post_pass (length search_queries) successful_queries all_results, calls2)"
    using a b c d by (rule search_with_key)
  show "search_restaurants w cfg st calls location cuisine user_id =
         ([(''results'', Results []), (''total_found'', Count 0),
           (''debug_info'',
            Message (msg_debug_empty (str_nat (length search_queries))
                       (str_nat successful_queries)))], calls2)"
    using s post_pass_empty [OF e] by simp
  show "map_of (fst (search_restaurants w cfg st calls location cuisine user_id)) ''error'' = None"
    using s post_pass_no_error by simp
qed

lemma quiet_queries:
  "generate_smart_search_queries quiet_world search_only_config [] ''Pune'' [] [] =
     (Inr [''best  restaurants in Pune'', ''good restaurants Pune reviews'',
           ''Pune restaurants zomato swiggy''], [])"
  by code_simp

lemma quiet_loop:
  "query_loop quiet_world search_only_config
     (take 6 [''best  restaurants in Pune'', ''good restaurants Pune reviews'',
              ''Pune restaurants zomato swiggy'']) [] 0 [] =
     ([], 3, [ExaPost ''exa-key'' ''best  restaurants in Pune'',
              ExaPost ''exa-key'' ''good restaurants Pune reviews'',
              ExaPost ''exa-key'' ''Pune restaurants zomato swiggy''])"
  by code_simp

lemma str_nat_3: "str_nat 3 = ''3''"
  by code_simp

lemma str_nat_Suc_3: "str_nat (Suc (Suc (Suc 0))) = ''3''"
  using str_nat_3 by (simp add: numeral_3_eq_3)

theorem C6_witness:
  "search_restaurants quiet_world no_key_config empty_store [] ''Pune'' [] [] =
     ([(''error'', Message msg_exa_key_missing)], [])
   \<and> search_restaurants quiet_world search_only_config empty_store [] ''Pune'' [] [] =
     ([(''results'', Results []), (''total_found'', Count 0),
       (''debug_info'', Message (msg_debug_empty ''3'' ''3''))],
      [ExaPost ''exa-key'' ''best  restaurants in Pune'',
       ExaPost ''exa-key'' ''good restaurants Pune reviews'',
       ExaPost ''exa-key'' ''Pune restaurants zomato swiggy''])
   \<and> map_of (fst (search_restaurants quiet_world no_key_config empty_store [] ''Pune'' [] []))
        ''error'' = Some (Message msg_exa_key_missing)
   \<and> map_of (fst (search_restaurants quiet_world search_only_config empty_store [] ''Pune'' [] []))
        ''error'' = None"
proof -
  have k: "exa_api_key no_key_config = []" by (simp add: no_key_config_def)
  have k': "exa_api_key search_only_config \<noteq> []" by (simp add: search_only_config_def)
  note a = C6_error_shape_distinct
             [of no_key_config quiet_world empty_store "[]" "''Pune''" "[]" "[]"]
  note b = C6_error_shape_distinct
             [of search_only_config quiet_world empty_store "[]" "''Pune''" "[]" "[]" "[]"
                 "[''best  restaurants in Pune'', ''good restaurants Pune reviews'',
                   ''Pune restaurants zomato swiggy'']" "[]" "[]" 3
                 "[ExaPost ''exa-key'' ''best  restaurants in Pune'',
                   ExaPost ''exa-key'' ''good restaurants Pune reviews'',
                   ExaPost ''exa-key'' ''Pune restaurants zomato swiggy'']"]
  have 1: "search_restaurants quiet_world no_key_config empty_store [] ''Pune'' [] [] =
             ([(''error'', Message msg_exa_key_missing)], [])"
    using a k by blast
  have 3: "map_of (fst (search_restaurants quiet_world no_key_config empty_store [] ''Pune'' [] []))
             ''error'' = Some (Message msg_exa_key_missing)"
    using a k by blast
  have c: "(if ([]::string) = [] \<and>
               truthy (dict_get (if ([]::string) \<noteq> [] then get_user_preferences empty_store [] else [])
                         ''cuisine_preferences'')
            then first_item (dict_get (if ([]::string) \<noteq> [] then get_user_preferences empty_store [] else [])
                               ''cuisine_preferences'')
            else Inr []) = Inr []"
    by (simp add: dict_get_def)
  have q: "generate_smart_search_queries quiet_world search_only_config [] ''Pune''
             (if ([]::string) \<noteq> [] then get_user_preferences empty_store [] else []) []
           = (Inr [''best  restaurants in Pune'', ''good restaurants Pune reviews'',
                   ''Pune restaurants zomato swiggy''], [])"
    using quiet_queries by simp
  have d: "remove_duplicates [] {} [] = []" by simp
  note b' = b [THEN conjunct2, rule_format, OF k' c q quiet_loop d]
  have 2: "search_restaurants quiet_world search_only_config empty_store [] ''Pune'' [] [] =
     ([(''results'', Results []), (''total_found'', Count 0),
       (''debug_info'', Message (msg_debug_empty ''3'' ''3''))],
      [ExaPost ''exa-key'' ''best  restaurants in Pune'',
       ExaPost ''exa-key'' ''good restaurants Pune reviews'',
       ExaPost ''exa-key'' ''Pune restaurants zomato swiggy''])"
    using b' by (simp add: str_nat_3 str_nat_Suc_3)
  have 4: "map_of (fst (search_restaurants quiet_world search_only_config empty_store [] ''Pune'' [] []))
             ''error'' = None"
    using b' by blast
  show ?thesis using 1 2 3 4 by blast
qed

section \<open>Preference store: the round trip\<close>

lemma bind_value_py: "bind_value v = Inr x \<Longrightarrow> py_of_sql x = v"
  by (cases v) (auto split: if_splits)

lemma bind_value_opt_float: "bind_value (opt_float v) = Inr (case v of None \<Rightarrow> SqlNull | Some r \<Rightarrow> SqlReal r)"
  by (cases v) (simp_all add: opt_float_def)

lemma bind_value_opt_str: "bind_value (opt_str v) = Inr (case v of None \<Rightarrow> SqlNull | Some s \<Rightarrow> SqlText s)"
  by (cases v) (simp_all add: opt_str_def)

lemma py_of_sql_opt_float: "py_of_sql (case v of None \<Rightarrow> SqlNull | Some r \<Rightarrow> SqlReal r) = opt_float v"
  by (cases v) (simp_all add: opt_float_def)

lemma py_of_sql_opt_str: "py_of_sql (case v of None \<Rightarrow> SqlNull | Some s \<Rightarrow> SqlText s) = opt_str v"
  by (cases v) (simp_all add: opt_str_def)

lemma msg_save_differ: "msg_save_error e \<noteq> msg_save_ok"
  by (simp add: msg_save_error_def msg_save_ok_def cross_mark_def check_mark_def)

lemma find_fresh:
  "\<forall>x \<in> set xs. \<not> P x \<Longrightarrow> P y \<Longrightarrow> find P (xs @ [y]) = Some y"
  by (induction xs) simp_all

text \<open>The row a successful save adds.\<close>

lemma save_ok_store:
  assumes ok: "fst (save_user_preferences st user_id prefs) = msg_save_ok"
  shows "\<exists>a d. bind_value (opt_int (age prefs)) = Inr a
           \<and> bind_value (opt_int (daily_calorie_target prefs)) = Inr d
           \<and> db_fault (snd (save_user_preferences st user_id prefs)) = None
           \<and> user_preferences (snd (save_user_preferences st user_id prefs)) =
               filter (\<lambda>r. map_of r ''user_id'' \<noteq> Some (SqlText user_id)) (user_preferences st) @
               [[(''id'', SqlInt (preferences_seq st + 1)),
                 (''user_id'', SqlText user_id),
                 (''dietary_restrictions'', SqlText (dumps_strs (or_empty (dietary_restrictions prefs)))),
                 (''food_allergies'', SqlText (dumps_strs (or_empty (food_allergies prefs)))),
                 (''cuisine_preferences'', SqlText (dumps_strs (or_empty (cuisine_preferences prefs)))),
                 (''health_goals'', SqlText (dumps_goals (or_empty (health_goals prefs)))),
                 (''weight_goal'', case weight_goal prefs of None \<Rightarrow> SqlNull | Some r \<Rightarrow> SqlReal r),
                 (''current_weight'', case current_weight prefs of None \<Rightarrow> SqlNull | Some r \<Rightarrow> SqlReal r),
                 (''activity_level'', case activity_level prefs of None \<Rightarrow> SqlNull | Some s \<Rightarrow> SqlText s),
                 (''age'', a),
                 (''gender'', case gender prefs of None \<Rightarrow> SqlNull | Some s \<Rightarrow> SqlText s),
                 (''height_cm'', case height_cm prefs of None \<Rightarrow> SqlNull | Some r \<Rightarrow> SqlReal r),
                 (''daily_calorie_target'', d),
                 (''protein_target'', case protein_target prefs of None \<Rightarrow> SqlNull | Some r \<Rightarrow> SqlReal r),
                 (''carb_target'', case carb_target prefs of None \<Rightarrow> SqlNull | Some r \<Rightarrow> SqlReal r),
                 (''fat_target'', case fat_target prefs of None \<Rightarrow> SqlNull | Some r \<Rightarrow> SqlReal r),
                 (''created_at'', SqlText (current_timestamp st)),
                 (''updated_at'', SqlText (current_timestamp st))]]"
proof -
  have f: "db_fault st = None"
    using ok msg_save_differ by (cases "db_fault st") (auto simp: save_user_preferences_def)
  obtain a where a: "bind_value (opt_int (age prefs)) = Inr a"
    using ok f msg_save_differ
    by (cases "bind_value (opt_int (age prefs))")
       (auto simp: save_user_preferences_def Let_def bind_value_opt_float bind_value_opt_str)
  obtain d where d: "bind_value (opt_int (daily_calorie_target prefs)) = Inr d"
    using ok f a msg_save_differ
    by (cases "bind_value (opt_int (daily_calorie_target prefs))")
       (auto simp: save_user_preferences_def Let_def bind_value_opt_float bind_value_opt_str)
  show ?thesis
    using f a d
    by (simp add: save_user_preferences_def Let_def bind_value_opt_float bind_value_opt_str
                  make_row_def user_preferences_columns_def)
qed


text \<open>
  C9. For every database, user identifier and preferences record: when
  \<^verbatim>\<open>save_user_preferences\<close> has saved the record (it returned its success message; the
  keys of the health goals are pairwise different, as the keys of a dictionary are),
  \<^verbatim>\<open>get_user_preferences\<close> for the same user returns the row of that save with every
  saved field as it was given: the three lists of strings as lists and the health
  goals as a dictionary, not as the JSON text stored, and each scalar field as the
  value given or \<^verbatim>\<open>None\<close>. The table then holds exactly one row of that user.
\<close>

theorem C9_preferences_round_trip:
  assumes ok: "fst (save_user_preferences st user_id prefs) = msg_save_ok"
    and keys: "distinct (map fst (or_empty (health_goals prefs)))"
  shows "get_user_preferences (snd (save_user_preferences st user_id prefs)) user_id =
           [(''id'', PInt (preferences_seq st + 1)),
            (''user_id'', PStr user_id),
            (''dietary_restrictions'', PStrs (or_empty (dietary_restrictions prefs))),
            (''food_allergies'', PStrs (or_empty (food_allergies prefs))),
            (''cuisine_preferences'', PStrs (or_empty (cuisine_preferences prefs))),
            (''health_goals'', PGoals (or_empty (health_goals prefs))),
            (''weight_goal'', opt_float (weight_goal prefs)),
            (''current_weight'', opt_float (current_weight prefs)),
            (''activity_level'', opt_str (activity_level prefs)),
            (''age'', opt_int (age prefs)),
            (''gender'', opt_str (gender prefs)),
            (''height_cm'', opt_float (height_cm prefs)),
            (''daily_calorie_target'', opt_int (daily_calorie_target prefs)),
            (''protein_target'', opt_float (protein_target prefs)),
            (''carb_target'', opt_float (carb_target prefs)),
            (''fat_target'', opt_float (fat_target prefs)),
            (''created_at'', PStr (current_timestamp st)),
            (''updated_at'', PStr (current_timestamp st))]
         \<and> length (filter (\<lambda>r. map_of r ''user_id'' = Some (SqlText user_id))
                     (user_preferences (snd (save_user_preferences st user_id prefs)))) = 1"
proof -
  let ?st = "snd (save_user_preferences st user_id prefs)"
  let ?P = "\<lambda>r. map_of r ''user_id'' = Some (SqlText user_id)"
  let ?kept = "filter (\<lambda>r. map_of r ''user_id'' \<noteq> Some (SqlText user_id)) (user_preferences st)"
  from save_ok_store [OF ok] obtain a d new_row where
    a: "bind_value (opt_int (age prefs)) = Inr a"
    and d: "bind_value (opt_int (daily_calorie_target prefs)) = Inr d"
    and f: "db_fault ?st = None"
    and rows: "user_preferences ?st = ?kept @ [new_row]"
    and new_row: "new_row =
               [(''id'', SqlInt (preferences_seq st + 1)),
                 (''user_id'', SqlText user_id),
                 (''dietary_restrictions'', SqlText (dumps_strs (or_empty (dietary_restrictions prefs)))),
                 (''food_allergies'', SqlText (dumps_strs (or_empty (food_allergies prefs)))),
                 (''cuisine_preferences'', SqlText (dumps_strs (or_empty (cuisine_preferences prefs)))),
                 (''health_goals'', SqlText (dumps_goals (or_empty (health_goals prefs)))),
                 (''weight_goal'', case weight_goal prefs of None \<Rightarrow> SqlNull | Some r \<Rightarrow> SqlReal r),
                 (''current_weight'', case current_weight prefs of None \<Rightarrow> SqlNull | Some r \<Rightarrow> SqlReal r),
                 (''activity_level'', case activity_level prefs of None \<Rightarrow> SqlNull | Some s \<Rightarrow> SqlText s),
                 (''age'', a),
                 (''gender'', case gender prefs of None \<Rightarrow> SqlNull | Some s \<Rightarrow> SqlText s),
                 (''height_cm'', case height_cm prefs of None \<Rightarrow> SqlNull | Some r \<Rightarrow> SqlReal r),
                 (''daily_calorie_target'', d),
                 (''protein_target'', case protein_target prefs of None \<Rightarrow> SqlNull | Some r \<Rightarrow> SqlReal r),
                 (''carb_target'', case carb_target prefs of None \<Rightarrow> SqlNull | Some r \<Rightarrow> SqlReal r),
                 (''fat_target'', case fat_target prefs of None \<Rightarrow> SqlNull | Some r \<Rightarrow> SqlReal r),
                 (''created_at'', SqlText (current_timestamp st)),
                 (''updated_at'', SqlText (current_timestamp st))]"
    by blast
  have p: "?P new_row" by (simp add: new_row)
  have found: "find ?P (user_preferences ?st) = Some new_row"
    unfolding rows using p by (intro find_fresh) simp_all
  have pa: "py_of_sql a = opt_int (age prefs)" using a by (rule bind_value_py)
  have pd: "py_of_sql d = opt_int (daily_calorie_target prefs)" using d by (rule bind_value_py)
  have one: "length (filter ?P (user_preferences ?st)) = 1"
    unfolding rows using p by simp
  have "get_user_preferences ?st user_id =
          (case parse_json_fields
                  [(''dietary_restrictions'', ''[]''), (''food_allergies'', ''[]''),
                   (''cuisine_preferences'', ''[]''), (''health_goals'', ''{}'')]
                  (map (\<lambda>cv. (fst cv, py_of_sql (snd cv))) new_row) of
             Inl e \<Rightarrow> []
           | Inr d \<Rightarrow> d)"
    using f found by (simp add: get_user_preferences_def)
  also have "\<dots> =
           [(''id'', PInt (preferences_seq st + 1)),
            (''user_id'', PStr user_id),
            (''dietary_restrictions'', PStrs (or_empty (dietary_restrictions prefs))),
            (''food_allergies'', PStrs (or_empty (food_allergies prefs))),
            (''cuisine_preferences'', PStrs (or_empty (cuisine_preferences prefs))),
            (''health_goals'', PGoals (or_empty (health_goals prefs))),
            (''weight_goal'', opt_float (weight_goal prefs)),
            (''current_weight'', opt_float (current_weight prefs)),
            (''activity_level'', opt_str (activity_level prefs)),
            (''age'', opt_int (age prefs)),
            (''gender'', opt_str (gender prefs)),
            (''height_cm'', opt_float (height_cm prefs)),
            (''daily_calorie_target'', opt_int (daily_calorie_target prefs)),
            (''protein_target'', opt_float (protein_target prefs)),
            (''carb_target'', opt_float (carb_target prefs)),
            (''fat_target'', opt_float (fat_target prefs)),
            (''created_at'', PStr (current_timestamp st)),
            (''updated_at'', PStr (current_timestamp st))]"
    by (simp add: new_row pa pd py_of_sql_opt_float py_of_sql_opt_str
                  json_loads_dumps_strs json_loads_dumps_goals [OF keys])
  finally show ?thesis using one by simp
qed


lemma save_user_preferences_ok:
  assumes "db_fault st = None"
    and "\<forall>i. age prefs = Some i \<longrightarrow> - (2 ^ 63) \<le> i \<and> i < 2 ^ 63"
    and "\<forall>i. daily_calorie_target prefs = Some i \<longrightarrow> - (2 ^ 63) \<le> i \<and> i < 2 ^ 63"
  shows "fst (save_user_preferences st user_id prefs) = msg_save_ok"
proof -
  have a: "\<exists>x. bind_value (opt_int (age prefs)) = Inr x"
    using assms(2) by (cases "age prefs") (simp_all add: opt_int_def)
  have d: "\<exists>x. bind_value (opt_int (daily_calorie_target prefs)) = Inr x"
    using assms(3) by (cases "daily_calorie_target prefs") (simp_all add: opt_int_def)
  from a d assms(1) show ?thesis
    by (auto simp: save_user_preferences_def Let_def bind_value_opt_float bind_value_opt_str)
qed

theorem C9_witness:
  "fst (save_user_preferences empty_store ''u1'' ex_preferences) = msg_save_ok
   \<and> distinct (map fst (or_empty (health_goals ex_preferences)))
   \<and> get_user_preferences (snd (save_user_preferences empty_store ''u1'' ex_preferences)) ''u1'' =
       [(''id'', PInt 1),
        (''user_id'', PStr ''u1''),
        (''dietary_restrictions'', PStrs [''Vegan'', ''Gluten-Free'']),
        (''food_allergies'', PStrs []),
        (''cuisine_preferences'', PStrs [''Indian'']),
        (''health_goals'', PGoals [(''weight_loss'', True), (''heart_health'', False)]),
        (''weight_goal'', PFloat 65),
        (''current_weight'', PFloat (145 / 2)),
        (''activity_level'', PStr ''moderate''),
        (''age'', PInt 30),
        (''gender'', PNone),
        (''height_cm'', PFloat 170),
        (''daily_calorie_target'', PInt 2000),
        (''protein_target'', PNone),
        (''carb_target'', PNone),
        (''fat_target'', PNone),
        (''created_at'', PStr ''2025-01-01 00:00:00''),
        (''updated_at'', PStr ''2025-01-01 00:00:00'')]"
proof -
  have ok: "fst (save_user_preferences empty_store ''u1'' ex_preferences) = msg_save_ok"
    by (intro save_user_preferences_ok) (simp_all add: empty_store_def ex_preferences_def)
  have keys: "distinct (map fst (or_empty (health_goals ex_preferences)))"
    by (simp add: ex_preferences_def or_empty_def)
  note t = C9_preferences_round_trip [OF ok keys]
  have "get_user_preferences (snd (save_user_preferences empty_store ''u1'' ex_preferences)) ''u1'' =
       [(''id'', PInt 1),
        (''user_id'', PStr ''u1''),
        (''dietary_restrictions'', PStrs [''Vegan'', ''Gluten-Free'']),
        (''food_allergies'', PStrs []),
        (''cuisine_preferences'', PStrs [''Indian'']),
        (''health_goals'', PGoals [(''weight_loss'', True), (''heart_health'', False)]),
        (''weight_goal'', PFloat 65),
        (''current_weight'', PFloat (145 / 2)),
        (''activity_level'', PStr ''moderate''),
        (''age'', PInt 30),
        (''gender'', PNone),
        (''height_cm'', PFloat 170),
        (''daily_calorie_target'', PInt 2000),
        (''protein_target'', PNone),
        (''carb_target'', PNone),
        (''fat_target'', PNone),
        (''created_at'', PStr ''2025-01-01 00:00:00''),
        (''updated_at'', PStr ''2025-01-01 00:00:00'')]"
    using t by (simp add: empty_store_def ex_preferences_def or_empty_def opt_float_def
                          opt_int_def opt_str_def)
  then show ?thesis using ok keys by blast
qed

section \<open>Intent classifier: the order of the location strategies\<close>

lemma title_from_nonempty: "s \<noteq> [] \<Longrightarrow> title_from p s \<noteq> []"
  by (cases s) simp_all

lemma str_join_nonempty: "xs \<noteq> [] \<Longrightarrow> hd xs \<noteq> [] \<Longrightarrow> str_join sep xs \<noteq> []"
  by (induction sep xs rule: str_join.induct) simp_all

lemma location_words_of_hd:
  "location_words_of ws \<noteq> [] \<Longrightarrow> hd (location_words_of ws) \<noteq> []"
  by (cases ws) (auto simp: Let_def split: if_splits)

lemma indicator_loop_nonempty: "indicator_loop inds query_lower \<noteq> Some []"
proof (induction inds)
  case Nil
  show ?case by simp
next
  case (Cons i inds)
  show ?case
    using Cons title_from_nonempty str_join_nonempty location_words_of_hd
    by (auto simp: Let_def str_title_def)
qed

lemma place_loop_from:
  "place_loop places query_lower None = Some l \<Longrightarrow> \<exists>p \<in> set places. l = str_title p"
  by (induction places) (auto split: if_splits)

lemma place_loop_nonempty: "place_loop common_places query_lower None \<noteq> Some []"
proof
  assume "place_loop common_places query_lower None = Some []"
  then obtain p where p: "p \<in> set common_places" "str_title p = []"
    using place_loop_from by fastforce
  then have "p = []" using title_from_nonempty [of p False] by (auto simp: str_title_def)
  with p(1) show False by (simp add: common_places_def)
qed

lemma strategy_1_nonempty: "strategy_1 query \<noteq> Some []"
  by (simp add: strategy_1_def indicator_loop_nonempty)

lemma strategy_2_nonempty: "strategy_2 query \<noteq> Some []"
  by (simp add: strategy_2_def place_loop_nonempty)

lemma detect_chain:
  "is_restaurant_query query \<Longrightarrow>
   detect_restaurant_query query =
     (case strategy_1 query of
        Some l \<Rightarrow> Some l
      | None \<Rightarrow> (case strategy_2 query of Some l \<Rightarrow> Some l | None \<Rightarrow> strategy_3 query))"
  using strategy_1_nonempty [of query] strategy_2_nonempty [of query]
  by (auto simp: detect_restaurant_query_def strategy_1_def strategy_2_def strategy_3_def
                 no_location_def Let_def split: option.splits)

text \<open>
  C4. In \<^verbatim>\<open>detect_restaurant_query\<close> the three strategies are tried in the order of the
  locative indicators, the common place names and the runs of capitalised words, and
  the first that yields a location gives the result. For a restaurant query the result
  is what strategy 1 yields when it yields a location; otherwise what strategy 2 yields
  when it yields one; otherwise what strategy 3 yields. A location yielded by strategy
  1 or 2 is never empty, so the result of a later strategy is never put in its place.
  A query that is no restaurant query has no location.
\<close>

theorem C4_first_strategy_wins:
  "(is_restaurant_query query \<longrightarrow>
      detect_restaurant_query query =
        (case strategy_1 query of
           Some l \<Rightarrow> Some l
         | None \<Rightarrow> (case strategy_2 query of Some l \<Rightarrow> Some l | None \<Rightarrow> strategy_3 query))
      \<and> (\<forall>l. strategy_1 query = Some l \<longrightarrow> l \<noteq> [] \<and> detect_restaurant_query query = Some l)
      \<and> (\<forall>l. strategy_1 query = None \<and> strategy_2 query = Some l \<longrightarrow>
               l \<noteq> [] \<and> detect_restaurant_query query = Some l)
      \<and> (strategy_1 query = None \<and> strategy_2 query = None \<longrightarrow>
            detect_restaurant_query query = strategy_3 query))
   \<and> (\<not> is_restaurant_query query \<longrightarrow> detect_restaurant_query query = None)"
proof (intro conjI impI allI)
  assume r: "is_restaurant_query query"
  show "detect_restaurant_query query =
        (case strategy_1 query of
           Some l \<Rightarrow> Some l
         | None \<Rightarrow> (case strategy_2 query of Some l \<Rightarrow> Some l | None \<Rightarrow> strategy_3 query))"
    using r by (rule detect_chain)
next
  fix l
  assume r: "is_restaurant_query query" and s: "strategy_1 query = Some l"
  show "l \<noteq> []" using s strategy_1_nonempty [of query] by auto
  show "detect_restaurant_query query = Some l" using detect_chain [OF r] s by simp
next
  fix l
  assume r: "is_restaurant_query query"
    and s: "strategy_1 query = None \<and> strategy_2 query = Some l"
  show "l \<noteq> []" using s strategy_2_nonempty [of query] by auto
  show "detect_restaurant_query query = Some l" using detect_chain [OF r] s by simp
next
  assume r: "is_restaurant_query query"
    and s: "strategy_1 query = None \<and> strategy_2 query = None"
  show "detect_restaurant_query query = strategy_3 query" using detect_chain [OF r] s by simp
next
  assume "\<not> is_restaurant_query query"
  then show "detect_restaurant_query query = None" by (simp add: detect_restaurant_query_def)
qed

lemma sushi_query:
  "is_restaurant_query ''Good Sushi pune''
   \<and> strategy_1 ''Good Sushi pune'' = None
   \<and> strategy_2 ''Good Sushi pune'' = Some ''Pune''
   \<and> strategy_3 ''Good Sushi pune'' = Some ''Good Sushi''"
  by code_simp

lemma dinner_query:
  "is_restaurant_query ''Dinner in Koregaon Park, Pune''
   \<and> strategy_1 ''Dinner in Koregaon Park, Pune'' = Some ''Koregaon Park Pune''
   \<and> strategy_2 ''Dinner in Koregaon Park, Pune'' = Some ''Pune''
   \<and> strategy_3 ''Dinner in Koregaon Park, Pune'' = Some ''Koregaon Park''"
  by code_simp

lemma cafe_query:
  "is_restaurant_query ''Nice Cafe Baner''
   \<and> strategy_1 ''Nice Cafe Baner'' = None
   \<and> strategy_2 ''Nice Cafe Baner'' = None
   \<and> strategy_3 ''Nice Cafe Baner'' = Some ''Nice Cafe Baner''"
  by code_simp

lemma protein_query: "\<not> is_restaurant_query ''What is protein''"
  by code_simp

theorem C4_witness:
  "(is_restaurant_query ''Dinner in Koregaon Park, Pune''
    \<and> strategy_1 ''Dinner in Koregaon Park, Pune'' = Some ''Koregaon Park Pune''
    \<and> strategy_2 ''Dinner in Koregaon Park, Pune'' = Some ''Pune''
    \<and> strategy_3 ''Dinner in Koregaon Park, Pune'' = Some ''Koregaon Park''
    \<and> detect_restaurant_query ''Dinner in Koregaon Park, Pune'' = Some ''Koregaon Park Pune'')
   \<and> (is_restaurant_query ''Good Sushi pune''
    \<and> strategy_1 ''Good Sushi pune'' = None
    \<and> strategy_2 ''Good Sushi pune'' = Some ''Pune''
    \<and> strategy_3 ''Good Sushi pune'' = Some ''Good Sushi''
    \<and> detect_restaurant_query ''Good Sushi pune'' = Some ''Pune'')
   \<and> (is_restaurant_query ''Nice Cafe Baner''
    \<and> strategy_1 ''Nice Cafe Baner'' = None
    \<and> strategy_2 ''Nice Cafe Baner'' = None
    \<and> detect_restaurant_query ''Nice Cafe Baner'' = Some ''Nice Cafe Baner'')
   \<and> (\<not> is_restaurant_query ''What is protein''
    \<and> detect_restaurant_query ''What is protein'' = None)"
proof -
  have a: "detect_restaurant_query ''Dinner in Koregaon Park, Pune'' = Some ''Koregaon Park Pune''"
    using C4_first_strategy_wins [of "''Dinner in Koregaon Park, Pune''"] dinner_query by blast
  have b: "detect_restaurant_query ''Good Sushi pune'' = Some ''Pune''"
    using C4_first_strategy_wins [of "''Good Sushi pune''"] sushi_query by blast
  have c: "detect_restaurant_query ''Nice Cafe Baner'' = Some ''Nice Cafe Baner''"
    using C4_first_strategy_wins [of "''Nice Cafe Baner''"] cafe_query by simp
  have d: "detect_restaurant_query ''What is protein'' = None"
    using C4_first_strategy_wins [of "''What is protein''"] protein_query by blast
  show ?thesis using a b c d dinner_query sushi_query cafe_query protein_query by blast
qed

section \<open>Query processing: food logging comes first\<close>

lemma handle_food_logging_calls:
  "snd (snd (handle_food_logging_request w cfg st calls query user_id user_prefs)) = calls
   \<or> snd (snd (handle_food_logging_request w cfg st calls query user_id user_prefs)) =
        calls @ [MistralPost (mistral_api_key cfg) (FoodExtraction query)]"
  by (auto simp: handle_food_logging_request_def Let_def
           split: mistral_reply.splits sum.splits food_reading.splits prod.splits)

lemma process_food_logging:
  "validate_input query \<Longrightarrow> is_food_logging_request query \<Longrightarrow>
   process_nutrition_query w cfg st calls query user_id =
     (case handle_food_logging_request w cfg st calls query user_id
             (if user_id \<noteq> [] then get_user_preferences st user_id else []) of
        (answer, st', calls') \<Rightarrow> (Inr answer, st', calls'))"
  by (simp add: process_nutrition_query_def query_try_block_def Let_def split: prod.splits)

lemma process_invalid:
  "\<not> validate_input query \<Longrightarrow>
   process_nutrition_query w cfg st calls query user_id = (Inr msg_invalid_input, st, calls)"
  by (simp add: process_nutrition_query_def query_try_block_def)

text \<open>
  C1. For every query that passes \<^verbatim>\<open>validate_input\<close> and holds a food-logging keyword
  and a dining keyword, \<^verbatim>\<open>process_nutrition_query\<close> returns what
  \<^verbatim>\<open>_handle_food_logging_request\<close> returns for it, with the preferences of the user:
  the test for food logging comes before the detection of a restaurant query, and no
  search request is issued, the only request possible being the one of the food
  extraction. A query that does not pass \<^verbatim>\<open>validate_input\<close> reaches neither handler:
  it is answered with the fixed message and no request. The query
  \<^verbatim>\<open>I had dinner, it was not spam\<close> holds keywords of both kinds and is answered that
  way: the routing to the food-logging handler holds only under the premise that the
  query passes \<^verbatim>\<open>validate_input\<close>.
\<close>

theorem C1_food_logging_before_restaurants:
  "(validate_input query \<longrightarrow> is_food_logging_request query \<longrightarrow>
      any_in restaurant_keywords (str_lower query) \<longrightarrow>
      process_nutrition_query w cfg st calls query user_id =
        (case handle_food_logging_request w cfg st calls query user_id
                (if user_id \<noteq> [] then get_user_preferences st user_id else []) of
           (answer, st', calls') \<Rightarrow> (Inr answer, st', calls'))
      \<and> (snd (snd (process_nutrition_query w cfg st calls query user_id)) = calls
         \<or> snd (snd (process_nutrition_query w cfg st calls query user_id)) =
              calls @ [MistralPost (mistral_api_key cfg) (FoodExtraction query)]))
   \<and> (\<not> validate_input query \<longrightarrow>
        process_nutrition_query w cfg st calls query user_id =
          (Inr msg_invalid_input, st, calls))"
proof (intro conjI impI)
  assume v: "validate_input query" and f: "is_food_logging_request query"
  let ?prefs = "if user_id \<noteq> [] then get_user_preferences st user_id else []"
  show p: "process_nutrition_query w cfg st calls query user_id =
        (case handle_food_logging_request w cfg st calls query user_id ?prefs of
           (answer, st', calls') \<Rightarrow> (Inr answer, st', calls'))"
    using v f by (rule process_food_logging)
  have "snd (snd (process_nutrition_query w cfg st calls query user_id)) =
          snd (snd (handle_food_logging_request w cfg st calls query user_id ?prefs))"
    unfolding p by (simp split: prod.splits)
  then show "snd (snd (process_nutrition_query w cfg st calls query user_id)) = calls
         \<or> snd (snd (process_nutrition_query w cfg st calls query user_id)) =
              calls @ [MistralPost (mistral_api_key cfg) (FoodExtraction query)]"
    using handle_food_logging_calls [of w cfg st calls query user_id ?prefs] by simp
next
  assume "\<not> validate_input query"
  then show "process_nutrition_query w cfg st calls query user_id =
          (Inr msg_invalid_input, st, calls)"
    by (rule process_invalid)
qed

lemma dinner_out_query:
  "validate_input ''Had dinner at a restaurant in Pune''
   \<and> is_food_logging_request ''Had dinner at a restaurant in Pune''
   \<and> any_in restaurant_keywords (str_lower ''Had dinner at a restaurant in Pune'')
   \<and> detect_restaurant_query ''Had dinner at a restaurant in Pune'' = Some ''Pune''"
  by code_simp

lemma dinner_out_logging:
  "handle_food_logging_request quiet_world both_keys_config empty_store []
     ''Had dinner at a restaurant in Pune'' ''u1'' [] =
     (msg_not_processed, empty_store,
      [MistralPost ''mistral-key'' (FoodExtraction ''Had dinner at a restaurant in Pune'')])"
  by (simp add: handle_food_logging_request_def quiet_world_def both_keys_config_def)

lemma empty_store_u1: "get_user_preferences empty_store ''u1'' = []"
  by (simp add: get_user_preferences_def empty_store_def)

theorem C1_witness:
  "validate_input ''Had dinner at a restaurant in Pune''
   \<and> is_food_logging_request ''Had dinner at a restaurant in Pune''
   \<and> any_in restaurant_keywords (str_lower ''Had dinner at a restaurant in Pune'')
   \<and> detect_restaurant_query ''Had dinner at a restaurant in Pune'' = Some ''Pune''
   \<and> process_nutrition_query quiet_world both_keys_config empty_store []
        ''Had dinner at a restaurant in Pune'' ''u1'' =
        (Inr msg_not_processed, empty_store,
         [MistralPost ''mistral-key'' (FoodExtraction ''Had dinner at a restaurant in Pune'')])
   \<and> \<not> validate_input ''Spam''
   \<and> process_nutrition_query quiet_world both_keys_config empty_store [] ''Spam'' ''u1'' =
        (Inr msg_invalid_input, empty_store, [])"
proof -
  note t = C1_food_logging_before_restaurants
             [of "''Had dinner at a restaurant in Pune''" quiet_world both_keys_config
                 empty_store "[]" "''u1''"]
  have a: "process_nutrition_query quiet_world both_keys_config empty_store []
        ''Had dinner at a restaurant in Pune'' ''u1'' =
        (Inr msg_not_processed, empty_store,
         [MistralPost ''mistral-key'' (FoodExtraction ''Had dinner at a restaurant in Pune'')])"
    using t dinner_out_query by (simp add: empty_store_u1 dinner_out_logging)
  have n: "\<not> validate_input ''Spam''" by code_simp
  have b: "process_nutrition_query quiet_world both_keys_config empty_store [] ''Spam'' ''u1'' =
        (Inr msg_invalid_input, empty_store, [])"
    using C1_food_logging_before_restaurants
            [of "''Spam''" quiet_world both_keys_config empty_store "[]" "''u1''"] n
    by blast
  show ?thesis using a b n dinner_out_query by blast
qed

lemma spam_dinner_query:
  "is_food_logging_request ''I had dinner, it was not spam''
   \<and> any_in restaurant_keywords (str_lower ''I had dinner, it was not spam'')
   \<and> \<not> validate_input ''I had dinner, it was not spam''"
  by code_simp

lemma spam_dinner_logging:
  "handle_food_logging_request quiet_world both_keys_config empty_store []
     ''I had dinner, it was not spam'' ''u1'' [] =
     (msg_not_processed, empty_store,
      [MistralPost ''mistral-key'' (FoodExtraction ''I had dinner, it was not spam'')])"
  by (simp add: handle_food_logging_request_def quiet_world_def both_keys_config_def)

lemma msg_invalid_differs: "msg_invalid_input \<noteq> msg_not_processed"
  by (simp add: msg_invalid_input_def msg_not_processed_def cross_mark_def)

theorem C1_counterexample:
  "is_food_logging_request ''I had dinner, it was not spam''
   \<and> any_in restaurant_keywords (str_lower ''I had dinner, it was not spam'')
   \<and> process_nutrition_query quiet_world both_keys_config empty_store []
        ''I had dinner, it was not spam'' ''u1'' = (Inr msg_invalid_input, empty_store, [])
   \<and> handle_food_logging_request quiet_world both_keys_config empty_store []
        ''I had dinner, it was not spam'' ''u1'' (get_user_preferences empty_store ''u1'') =
        (msg_not_processed, empty_store,
         [MistralPost ''mistral-key'' (FoodExtraction ''I had dinner, it was not spam'')])
   \<and> process_nutrition_query quiet_world both_keys_config empty_store []
        ''I had dinner, it was not spam'' ''u1'' \<noteq>
      (case handle_food_logging_request quiet_world both_keys_config empty_store []
              ''I had dinner, it was not spam'' ''u1'' (get_user_preferences empty_store ''u1'') of
         (answer, st', calls') \<Rightarrow> (Inr answer, st', calls'))"
proof -
  have p: "process_nutrition_query quiet_world both_keys_config empty_store []
        ''I had dinner, it was not spam'' ''u1'' = (Inr msg_invalid_input, empty_store, [])"
    using spam_dinner_query by (intro process_invalid) blast
  have h: "handle_food_logging_request quiet_world both_keys_config empty_store []
        ''I had dinner, it was not spam'' ''u1'' (get_user_preferences empty_store ''u1'') =
        (msg_not_processed, empty_store,
         [MistralPost ''mistral-key'' (FoodExtraction ''I had dinner, it was not spam'')])"
    by (simp only: empty_store_u1 spam_dinner_logging)
  have d: "process_nutrition_query quiet_world both_keys_config empty_store []
        ''I had dinner, it was not spam'' ''u1'' \<noteq>
      (case handle_food_logging_request quiet_world both_keys_config empty_store []
              ''I had dinner, it was not spam'' ''u1'' (get_user_preferences empty_store ''u1'') of
         (answer, st', calls') \<Rightarrow> (Inr answer, st', calls'))"
    unfolding p h by simp
  show ?thesis using spam_dinner_query p h d by blast
qed

section \<open>Query processing: the workout plan without its credential\<close>

lemma workout_without_key:
  "mistral_api_key cfg = [] \<Longrightarrow>
   generate_workout_plan w cfg calls user_prefs query = (Inl msg_workout_key_required, calls)"
  by (simp add: generate_workout_plan_def)

lemma try_block_workout_without_key:
  assumes "mistral_api_key cfg = []" and "validate_input query"
    and "\<not> is_food_logging_request query"
    and "no_location (detect_restaurant_query query)"
    and "any_in workout_words (str_lower query)"
  shows "query_try_block w cfg st calls query user_id = (Inl msg_workout_key_required, st, calls)"
  using assms
  by (auto simp: query_try_block_def route_to_advisers_def workout_without_key no_location_def
                 Let_def split: option.splits)

lemma process_returns:
  "\<exists>answer. fst (process_nutrition_query w cfg st calls query user_id) = Inr answer"
proof -
  obtain r st' calls' where q: "query_try_block w cfg st calls query user_id = (r, st', calls')"
    by (cases "query_try_block w cfg st calls query user_id") auto
  show ?thesis by (cases r) (simp_all add: process_nutrition_query_def q)
qed

lemma process_handler:
  "query_try_block w cfg st calls query user_id = (Inl e, st', calls') \<Longrightarrow>
   process_nutrition_query w cfg st calls query user_id = (Inr (msg_query_error e), st', calls')"
  by (simp add: process_nutrition_query_def)

text \<open>
  C7. Without the text-generation credential \<^verbatim>\<open>generate_workout_plan\<close> raises its
  exception and issues no request: it has no fallback text. The exception does not
  leave \<^verbatim>\<open>process_nutrition_query\<close>: for a valid query that is no food-logging request,
  has no location and names a workout word, the \<^verbatim>\<open>try\<close> block raises that exception
  and the handler of \<^verbatim>\<open>process_nutrition_query\<close> returns the message made of it. On
  every path \<^verbatim>\<open>process_nutrition_query\<close> returns a string.
\<close>

theorem C7_workout_raises_and_is_caught:
  "(mistral_api_key cfg = [] \<longrightarrow>
      generate_workout_plan w cfg calls user_prefs query = (Inl msg_workout_key_required, calls))
   \<and> (mistral_api_key cfg = [] \<longrightarrow> validate_input query \<longrightarrow>
        \<not> is_food_logging_request query \<longrightarrow> no_location (detect_restaurant_query query) \<longrightarrow>
        any_in workout_words (str_lower query) \<longrightarrow>
        query_try_block w cfg st calls query user_id = (Inl msg_workout_key_required, st, calls)
        \<and> process_nutrition_query w cfg st calls query user_id =
            (Inr (msg_query_error msg_workout_key_required), st, calls))
   \<and> (\<exists>answer. fst (process_nutrition_query w cfg st calls query user_id) = Inr answer)"
proof (intro conjI impI)
  assume "mistral_api_key cfg = []"
  then show "generate_workout_plan w cfg calls user_prefs query =
               (Inl msg_workout_key_required, calls)"
    by (rule workout_without_key)
next
  assume a: "mistral_api_key cfg = []" "validate_input query" "\<not> is_food_logging_request query"
    "no_location (detect_restaurant_query query)" "any_in workout_words (str_lower query)"
  show b: "query_try_block w cfg st calls query user_id = (Inl msg_workout_key_required, st, calls)"
    using a by (rule try_block_workout_without_key)
  show "process_nutrition_query w cfg st calls query user_id =
            (Inr (msg_query_error msg_workout_key_required), st, calls)"
    using b by (rule process_handler)
next
  show "\<exists>answer. fst (process_nutrition_query w cfg st calls query user_id) = Inr answer"
    by (rule process_returns)
qed

lemma gym_query:
  "validate_input ''Plan my gym training''
   \<and> \<not> is_food_logging_request ''Plan my gym training''
   \<and> no_location (detect_restaurant_query ''Plan my gym training'')
   \<and> any_in workout_words (str_lower ''Plan my gym training'')"
  by code_simp

theorem C7_witness:
  "mistral_api_key no_key_config = []
   \<and> validate_input ''Plan my gym training''
   \<and> \<not> is_food_logging_request ''Plan my gym training''
   \<and> no_location (detect_restaurant_query ''Plan my gym training'')
   \<and> any_in workout_words (str_lower ''Plan my gym training'')
   \<and> generate_workout_plan quiet_world no_key_config [] [] ''Plan my gym training'' =
        (Inl msg_workout_key_required, [])
   \<and> query_try_block quiet_world no_key_config empty_store [] ''Plan my gym training'' ''u1'' =
        (Inl msg_workout_key_required, empty_store, [])
   \<and> process_nutrition_query quiet_world no_key_config empty_store [] ''Plan my gym training'' ''u1'' =
        (Inr (msg_query_error msg_workout_key_required), empty_store, [])"
proof -
  have k: "mistral_api_key no_key_config = []" by (simp add: no_key_config_def)
  note t = C7_workout_raises_and_is_caught
             [of no_key_config quiet_world "[]" "[]" "''Plan my gym training''" empty_store "''u1''"]
  have a: "generate_workout_plan quiet_world no_key_config [] [] ''Plan my gym training'' =
        (Inl msg_workout_key_required, [])"
    using t k by blast
  have b: "query_try_block quiet_world no_key_config empty_store [] ''Plan my gym training'' ''u1'' =
        (Inl msg_workout_key_required, empty_store, [])
     \<and> process_nutrition_query quiet_world no_key_config empty_store [] ''Plan my gym training'' ''u1'' =
        (Inr (msg_query_error msg_workout_key_required), empty_store, [])"
    using t k gym_query by blast
  show ?thesis using k gym_query a b by blast
qed

lemma workout_plan_query:
  "validate_input ''Give me a workout plan''
   \<and> \<not> is_food_logging_request ''Give me a workout plan''
   \<and> no_location (detect_restaurant_query ''Give me a workout plan'')
   \<and> any_in workout_words (str_lower ''Give me a workout plan'')"
  by code_simp

theorem C7_counterexample:
  "mistral_api_key no_key_config = []
   \<and> any_in workout_words (str_lower ''Give me a workout plan'')
   \<and> generate_workout_plan quiet_world no_key_config [] [] ''Give me a workout plan'' =
        (Inl msg_workout_key_required, [])
   \<and> process_nutrition_query quiet_world no_key_config empty_store [] ''Give me a workout plan'' [] =
        (Inr (msg_query_error msg_workout_key_required), empty_store, [])
   \<and> (\<forall>e. fst (process_nutrition_query quiet_world no_key_config empty_store []
                 ''Give me a workout plan'' []) \<noteq> Inl e)"
proof -
  have k: "mistral_api_key no_key_config = []" by (simp add: no_key_config_def)
  have g: "generate_workout_plan quiet_world no_key_config [] [] ''Give me a workout plan'' =
        (Inl msg_workout_key_required, [])"
    using k by (rule workout_without_key)
  have "query_try_block quiet_world no_key_config empty_store [] ''Give me a workout plan'' [] =
          (Inl msg_workout_key_required, empty_store, [])"
    using k workout_plan_query by (intro try_block_workout_without_key) blast+
  then have p: "process_nutrition_query quiet_world no_key_config empty_store []
                  ''Give me a workout plan'' [] =
                (Inr (msg_query_error msg_workout_key_required), empty_store, [])"
    by (rule process_handler)
  have n: "\<forall>e. fst (process_nutrition_query quiet_world no_key_config empty_store []
                 ''Give me a workout plan'' []) \<noteq> Inl e"
    unfolding p by simp
  show ?thesis using k workout_plan_query g p n by blast
qed

section \<open>Missing credentials\<close>

lemma advice_without_key:
  "mistral_api_key cfg = [] \<Longrightarrow>
   get_ai_nutrition_advice w cfg calls query user_prefs = (msg_mistral_key_missing, calls)"
  by (simp add: get_ai_nutrition_advice_def)

lemma smart_queries_fall_back:
  "mistral_api_key cfg = [] \<Longrightarrow>
   generate_smart_search_queries w cfg calls location user_prefs cuisine =
     (generate_fallback_queries location user_prefs cuisine, calls)"
  by (simp add: generate_smart_search_queries_def)

lemma recommendations_without_key:
  "mistral_api_key cfg = [] \<Longrightarrow>
   generate_ai_restaurant_recommendations w cfg calls results location user_prefs =
     (found_listing results location, calls)"
  by (simp add: generate_ai_restaurant_recommendations_def)

text \<open>
  C5. Without the text-generation credential no request is issued by the nutrition
  advice, the workout plan, the query composer and the recommendation synthesizer:
  the advice returns the fixed message that the key is not configured, the workout
  plan raises its exception, and the composer and the synthesizer fall back, to the
  template queries and to the plain listing, without a report of the missing
  credential. Without the search credential \<^verbatim>\<open>search_restaurants\<close> returns the
  \<^verbatim>\<open>error\<close> shape and issues no request. Nothing is stated here on
  \<^verbatim>\<open>_handle_food_logging_request\<close>, which has no test of the credential.
\<close>

theorem C5_no_request_without_credential:
  "(mistral_api_key cfg = [] \<longrightarrow>
      get_ai_nutrition_advice w cfg calls query user_prefs = (msg_mistral_key_missing, calls)
      \<and> generate_workout_plan w cfg calls user_prefs query =
          (Inl msg_workout_key_required, calls)
      \<and> generate_smart_search_queries w cfg calls location user_prefs cuisine =
          (generate_fallback_queries location user_prefs cuisine, calls)
      \<and> generate_ai_restaurant_recommendations w cfg calls results location user_prefs =
          (found_listing results location, calls))
   \<and> (exa_api_key cfg = [] \<longrightarrow>
        search_restaurants w cfg st calls location cuisine user_id =
          ([(''error'', Message msg_exa_key_missing)], calls))"
proof (intro conjI impI)
  assume k: "mistral_api_key cfg = []"
  show "get_ai_nutrition_advice w cfg calls query user_prefs = (msg_mistral_key_missing, calls)"
    using k by (rule advice_without_key)
  show "generate_workout_plan w cfg calls user_prefs query = (Inl msg_workout_key_required, calls)"
    using k by (rule workout_without_key)
  show "generate_smart_search_queries w cfg calls location user_prefs cuisine =
          (generate_fallback_queries location user_prefs cuisine, calls)"
    using k by (rule smart_queries_fall_back)
  show "generate_ai_restaurant_recommendations w cfg calls results location user_prefs =
          (found_listing results location, calls)"
    using k by (rule recommendations_without_key)
next
  assume "exa_api_key cfg = []"
  then show "search_restaurants w cfg st calls location cuisine user_id =
          ([(''error'', Message msg_exa_key_missing)], calls)"
    by (rule search_without_key)
qed

lemma fallback_pune:
  "generate_fallback_queries ''Pune'' [] [] =
     Inr [''best  restaurants in Pune'', ''good restaurants Pune reviews'',
          ''Pune restaurants zomato swiggy'']"
  by code_simp

theorem C5_witness:
  "mistral_api_key no_key_config = [] \<and> exa_api_key no_key_config = []
   \<and> get_ai_nutrition_advice quiet_world no_key_config [] ''Is rice healthy?'' [] =
        (msg_mistral_key_missing, [])
   \<and> generate_workout_plan quiet_world no_key_config [] [] ''Is rice healthy?'' =
        (Inl msg_workout_key_required, [])
   \<and> generate_smart_search_queries quiet_world no_key_config [] ''Pune'' [] [] =
        (Inr [''best  restaurants in Pune'', ''good restaurants Pune reviews'',
              ''Pune restaurants zomato swiggy''], [])
   \<and> generate_ai_restaurant_recommendations quiet_world no_key_config [] four_results ''Pune'' [] =
        (found_listing four_results ''Pune'', [])
   \<and> search_restaurants quiet_world no_key_config empty_store [] ''Pune'' [] ''u1'' =
        ([(''error'', Message msg_exa_key_missing)], [])"
proof -
  have k: "mistral_api_key no_key_config = []" "exa_api_key no_key_config = []"
    by (simp_all add: no_key_config_def)
  note t = C5_no_request_without_credential
             [of no_key_config quiet_world "[]" "''Is rice healthy?''" "[]" "''Pune''" "[]"
                 four_results empty_store "''u1''"]
  have a: "get_ai_nutrition_advice quiet_world no_key_config [] ''Is rice healthy?'' [] =
        (msg_mistral_key_missing, [])"
    using t k by blast
  have b: "generate_workout_plan quiet_world no_key_config [] [] ''Is rice healthy?'' =
        (Inl msg_workout_key_required, [])"
    using t k by blast
  have "generate_smart_search_queries quiet_world no_key_config [] ''Pune'' [] [] =
        (generate_fallback_queries ''Pune'' [] [], [])"
    using t k by blast
  then have c: "generate_smart_search_queries quiet_world no_key_config [] ''Pune'' [] [] =
        (Inr [''best  restaurants in Pune'', ''good restaurants Pune reviews'',
              ''Pune restaurants zomato swiggy''], [])"
    by (simp only: fallback_pune)
  have d: "generate_ai_restaurant_recommendations quiet_world no_key_config [] four_results ''Pune'' [] =
        (found_listing four_results ''Pune'', [])"
    using t k by blast
  have e: "search_restaurants quiet_world no_key_config empty_store [] ''Pune'' [] ''u1'' =
        ([(''error'', Message msg_exa_key_missing)], [])"
    using t k by blast
  show ?thesis using k a b c d e by blast
qed

lemma apple_logging:
  "handle_food_logging_request quiet_world no_key_config empty_store [] ''I ate an apple'' ''u1'' [] =
     (msg_not_processed, empty_store, [MistralPost [] (FoodExtraction ''I ate an apple'')])"
  by (simp add: handle_food_logging_request_def quiet_world_def no_key_config_def)

lemma apple_query:
  "validate_input ''I ate an apple'' \<and> is_food_logging_request ''I ate an apple''"
  by code_simp

theorem C5_counterexample:
  "mistral_api_key no_key_config = []
   \<and> generate_smart_search_queries quiet_world no_key_config [] ''Pune'' [] [] =
        (Inr [''best  restaurants in Pune'', ''good restaurants Pune reviews'',
              ''Pune restaurants zomato swiggy''], [])
   \<and> handle_food_logging_request quiet_world no_key_config empty_store []
        ''I ate an apple'' ''u1'' [] =
        (msg_not_processed, empty_store, [MistralPost [] (FoodExtraction ''I ate an apple'')])
   \<and> process_nutrition_query quiet_world no_key_config empty_store []
        ''I ate an apple'' ''u1'' =
        (Inr msg_not_processed, empty_store, [MistralPost [] (FoodExtraction ''I ate an apple'')])"
proof -
  have k: "mistral_api_key no_key_config = []" by (simp add: no_key_config_def)
  have q: "generate_smart_search_queries quiet_world no_key_config [] ''Pune'' [] [] =
        (Inr [''best  restaurants in Pune'', ''good restaurants Pune reviews'',
              ''Pune restaurants zomato swiggy''], [])"
    using smart_queries_fall_back [OF k] by (simp only: fallback_pune)
  have p: "process_nutrition_query quiet_world no_key_config empty_store []
        ''I ate an apple'' ''u1'' =
        (Inr msg_not_processed, empty_store, [MistralPost [] (FoodExtraction ''I ate an apple'')])"
    using apple_query process_food_logging [of "''I ate an apple''" quiet_world no_key_config
                                              empty_store "[]" "''u1''"]
    by (simp add: empty_store_u1 apple_logging)
  show ?thesis using k q apple_logging p by blast
qed

end
